theory Spec2Isabelle
  imports Complex_Main
begin

section \<open>Python values shared by the modules\<close>

text \<open>
  A Python \<open>str\<close> is a sequence of Unicode code points; \<open>len\<close> counts code points and
  characters compare by code point. A string is therefore modelled as the list of its code
  points, and \<open>py\<close> embeds an ASCII literal.
\<close>

type_synonym pystr = "nat list"

definition py :: "string \<Rightarrow> pystr" where
  "py s = map of_char s"

text \<open>The exceptions the modelled functions can raise; \<open>Inl\<close> of a sum is a raise.\<close>

datatype pyerror =
    ZeroDivisionError
  | ValueError
  | TypeError
  | AttributeError
  | JSONDecodeError
  | HTTPError nat
  | ConnectionError
  | OSError

section \<open>Language direction detector\<close>

text \<open>
  \<^verbatim>\<open>detect_language\<close> of \<^verbatim>\<open>name_eval_system.py\<close>; \<^verbatim>\<open>real_person_name_verifier.py\<close>
  holds a second copy with the same body.
  \<^verbatim>\<open>
    korean_chars = sum(1 for char in name if U+AC00 <= char <= U+D7A3)
    if korean_chars / len(name) > 0.2:
        return "ko"
    return "en"
  \<close>
  Python's \<open>/\<close> on two ints raises ZeroDivisionError for a zero divisor and otherwise gives
  the correctly rounded double of the quotient. The quotient is modelled as the exact
  rational. Rounding is monotone and \<open>0.2\<close> denotes the double nearest to one fifth, so for a
  name of fewer than \<open>2^50\<close> characters the comparison of the doubles and the comparison
  of the exact quotient with one fifth have the same outcome.
\<close>

definition hangul_syllable :: "nat \<Rightarrow> bool" where
  "hangul_syllable c \<longleftrightarrow> 0xAC00 \<le> c \<and> c \<le> 0xD7A3"

definition korean_chars :: "pystr \<Rightarrow> nat" where
  "korean_chars name = length (filter hangul_syllable name)"

definition truediv :: "nat \<Rightarrow> nat \<Rightarrow> pyerror + rat" where
  "truediv a b = (if b = 0 then Inl ZeroDivisionError else Inr (of_nat a / of_nat b))"

definition detect_language :: "pystr \<Rightarrow> pyerror + string" where
  "detect_language name =
     (case truediv (korean_chars name) (length name) of
        Inl e \<Rightarrow> Inl e
      | Inr ratio \<Rightarrow> if ratio > 2 / 10 then Inr ''ko'' else Inr ''en'')"

text \<open>
  \<^verbatim>\<open>auto_detect_names\<close> calls the detector for every name with no handler around the call,
  so a raise leaves the loop and the function. The dictionary with the keys \<open>"ko"\<close> and
  \<open>"en"\<close> is the pair of the two lists.
\<close>

fun auto_detect_names :: "pystr list \<Rightarrow> pyerror + (pystr list \<times> pystr list)" where
  "auto_detect_names [] = Inr ([], [])"
| "auto_detect_names (name # names) =
     (case detect_language name of
        Inl e \<Rightarrow> Inl e
      | Inr lang \<Rightarrow>
          (case auto_detect_names names of
             Inl e \<Rightarrow> Inl e
           | Inr (ko, en) \<Rightarrow>
               if lang = ''ko'' then Inr (name # ko, en) else Inr (ko, name # en)))"

definition ascii_letter :: "nat \<Rightarrow> bool" where
  "ascii_letter c \<longleftrightarrow> (65 \<le> c \<and> c \<le> 90) \<or> (97 \<le> c \<and> c \<le> 122)"

section \<open>Python string operations\<close>

text \<open>
  The builtins of \<open>str\<close> the extractors call, on code-point lists. \<open>whitespace\<close> is the
  character class of \<open>str.strip()\<close>, \<open>str.split()\<close> and the regular expression \<open>\s\<close>.
\<close>

definition whitespace :: "nat \<Rightarrow> bool" where
  "whitespace c \<longleftrightarrow>
     (9 \<le> c \<and> c \<le> 13) \<or> (28 \<le> c \<and> c \<le> 32) \<or> c = 0x85 \<or> c = 0xA0 \<or> c = 0x1680
     \<or> (0x2000 \<le> c \<and> c \<le> 0x200A) \<or> c = 0x2028 \<or> c = 0x2029 \<or> c = 0x202F
     \<or> c = 0x205F \<or> c = 0x3000"

definition strip :: "pystr \<Rightarrow> pystr" where
  "strip s = rev (dropWhile whitespace (rev (dropWhile whitespace s)))"

text \<open>\<open>s.split()\<close>: the maximal runs of characters that are not whitespace.\<close>

fun split_acc :: "pystr \<Rightarrow> pystr \<Rightarrow> pystr list" where
  "split_acc cur [] = (if cur = [] then [] else [rev cur])"
| "split_acc cur (c # cs) =
     (if whitespace c then (if cur = [] then split_acc [] cs else rev cur # split_acc [] cs)
      else split_acc (c # cur) cs)"

definition split :: "pystr \<Rightarrow> pystr list" where
  "split s = split_acc [] s"

text \<open>\<open>s.split(sep)\<close> for a one-character separator: always at least one piece.\<close>

fun split_on :: "nat \<Rightarrow> pystr \<Rightarrow> pystr list" where
  "split_on sep [] = [[]]"
| "split_on sep (c # cs) =
     (if c = sep then [] # split_on sep cs
      else (case split_on sep cs of
              [] \<Rightarrow> [[c]]
            | piece # pieces \<Rightarrow> (c # piece) # pieces))"

fun startswith :: "pystr \<Rightarrow> pystr \<Rightarrow> bool" where
  "startswith s [] = True"
| "startswith [] (p # ps) = False"
| "startswith (c # cs) (p # ps) = (c = p \<and> startswith cs ps)"

definition endswith :: "pystr \<Rightarrow> pystr \<Rightarrow> bool" where
  "endswith s suffix = startswith (rev s) (rev suffix)"

text \<open>\<open>sub in s\<close>.\<close>

fun contains :: "pystr \<Rightarrow> pystr \<Rightarrow> bool" where
  "contains sub [] = (sub = [])"
| "contains sub (c # cs) = (startswith (c # cs) sub \<or> contains sub cs)"

text \<open>\<open>s.rstrip(chars)\<close> for a one-character argument.\<close>

definition rstrip_char :: "nat \<Rightarrow> pystr \<Rightarrow> pystr" where
  "rstrip_char ch s = rev (dropWhile (\<lambda>c. c = ch) (rev s))"

text \<open>\<open>s.split(":", 1)[1]\<close> for a string that contains a colon: the text after the first.\<close>

definition after_colon :: "pystr \<Rightarrow> pystr" where
  "after_colon s = tl (dropWhile (\<lambda>c. c \<noteq> 58) s)"

section \<open>JSON values and the Python library\<close>

text \<open>
  The values \<open>json.loads\<close> returns, which are also the values the result dictionaries
  hold: \<open>None\<close>, booleans, integers, floats, strings, lists, and dictionaries with string
  keys. A dictionary is the association list of its items, read with \<open>dict_get\<close>.
\<close>

datatype pyfloat = Finite rat | NaN | PosInf | NegInf

datatype json =
    JNull
  | JBool bool
  | JInt int
  | JFloat pyfloat
  | JStr pystr
  | JArr "json list"
  | JObj "(pystr \<times> json) list"

text \<open>\<open>d.get(key, default)\<close>.\<close>

definition dict_get :: "(pystr \<times> json) list \<Rightarrow> pystr \<Rightarrow> json \<Rightarrow> json" where
  "dict_get d key dflt = (case map_of d key of None \<Rightarrow> dflt | Some v \<Rightarrow> v)"

text \<open>Truth value of a Python object in a condition.\<close>

fun truthy :: "json \<Rightarrow> bool" where
  "truthy JNull = False"
| "truthy (JBool b) = b"
| "truthy (JInt n) = (n \<noteq> 0)"
| "truthy (JFloat f) = (f \<noteq> Finite 0)"
| "truthy (JStr s) = (s \<noteq> [])"
| "truthy (JArr xs) = (xs \<noteq> [])"
| "truthy (JObj d) = (d \<noteq> [])"

text \<open>\<open>for x in v\<close>: the elements of a list, the characters of a string, the keys of a
  dictionary; any other value is not iterable.\<close>

fun py_iter :: "json \<Rightarrow> pyerror + json list" where
  "py_iter (JArr xs) = Inr xs"
| "py_iter (JStr s) = Inr (map (\<lambda>c. JStr [c]) s)"
| "py_iter (JObj d) = Inr (map (\<lambda>kv. JStr (fst kv)) d)"
| "py_iter v = Inl TypeError"

text \<open>
  The parts of the Python runtime whose tables are not in the repository are a parameter of
  the model, so that every theorem quantified over \<open>lib\<close> holds for CPython's tables as
  for any other:
  \<^item> \<open>isdigit_char\<close>: \<open>str.isdigit\<close> of one character (Unicode digit property);
  \<^item> \<open>decimal_value\<close>: the value of a Unicode decimal digit, the characters \<open>int()\<close>
    converts and \<open>\d\<close> matches;
  \<^item> \<open>str_lower\<close>: \<open>str.lower\<close>;
  \<^item> \<open>ignorecase_eq\<close>: whether a pattern character matches a text character under
    \<open>re.IGNORECASE\<close>;
  \<^item> \<open>int_max_str_digits\<close>: \<open>sys.get_int_max_str_digits()\<close>, 0 for no limit;
  \<^item> \<open>format_value\<close>: the text an f-string inserts for a value.
\<close>

record pylib =
  isdigit_char :: "nat \<Rightarrow> bool"
  decimal_value :: "nat \<Rightarrow> nat option"
  str_lower :: "pystr \<Rightarrow> pystr"
  ignorecase_eq :: "nat \<Rightarrow> nat \<Rightarrow> bool"
  int_max_str_digits :: nat
  format_value :: "json \<Rightarrow> pystr"

text \<open>\<open>s.isdigit()\<close>: a non-empty string of digit characters.\<close>

definition isdigit :: "pylib \<Rightarrow> pystr \<Rightarrow> bool" where
  "isdigit lib s \<longleftrightarrow> s \<noteq> [] \<and> list_all (isdigit_char lib) s"

text \<open>
  \<open>int(s)\<close> for a string without sign, underscore or whitespace, which is all the callers
  pass: ValueError for the empty string, for a character that is no decimal digit, and
  for a string longer than the limit on digits.
\<close>

definition py_int :: "pylib \<Rightarrow> pystr \<Rightarrow> pyerror + int" where
  "py_int lib s =
     (if s = [] \<or> \<not> list_all (\<lambda>c. decimal_value lib c \<noteq> None) s then Inl ValueError
      else if int_max_str_digits lib \<noteq> 0 \<and> length s > int_max_str_digits lib
        then Inl ValueError
      else Inr (int (foldl (\<lambda>acc c. 10 * acc + the (decimal_value lib c)) 0 s)))"

text \<open>
  An instance for running the model on ASCII text: ASCII digits and ASCII case mapping,
  the default limit of 4300 digits, a string inserted as it is and \<open>None\<close> as \<open>None\<close>.
  It agrees with CPython on the inputs of the examples below, which hold ASCII characters
  and Hangul syllables only and insert no value but strings; the theorems that quantify
  over \<open>lib\<close> do not depend on it.
\<close>

definition ascii_digit :: "nat \<Rightarrow> bool" where
  "ascii_digit c \<longleftrightarrow> 48 \<le> c \<and> c \<le> 57"

definition ascii_lower :: "nat \<Rightarrow> nat" where
  "ascii_lower c = (if 65 \<le> c \<and> c \<le> 90 then c + 32 else c)"

definition ascii_lib :: pylib where
  "ascii_lib =
     \<lparr> isdigit_char = ascii_digit,
       decimal_value = (\<lambda>c. if ascii_digit c then Some (c - 48) else None),
       str_lower = map ascii_lower,
       ignorecase_eq = (\<lambda>p c. ascii_lower p = ascii_lower c),
       int_max_str_digits = 4300,
       format_value = (\<lambda>v. case v of JStr s \<Rightarrow> s | _ \<Rightarrow> py ''None'') \<rparr>"

section \<open>English to Korean: extraction from the free-text evaluation\<close>

text \<open>
  \<^verbatim>\<open>evaluate_english_name\<close> of \<^verbatim>\<open>english_to_korean_evaluator.py\<close> sends the prompt to the
  model and parses the text \<open>result\<close> it returns. The variables of the parsing loop are the
  fields of \<open>scan\<close>.
\<close>

record scan =
  korean_notation :: pystr
  compliance_score :: int
  compliant :: bool
  verification_process :: "pystr list"
  recommendations :: "pystr list"
  sources :: "pystr list"

definition initial_scan :: scan where
  "initial_scan =
     \<lparr> korean_notation = [], compliance_score = 0, compliant = False,
       verification_process = [], recommendations = [], sources = [] \<rparr>"

text \<open>
  \<^verbatim>\<open>
    if ("[Hangul marker]" in line or "Korean notation" in line
        or "recommended notation" in line or "Hangul" in line) and not korean_notation:
        if ":" in line:
            korean_notation = line.split(":", 1)[1].strip()
        elif i + 1 < len(lines) and any(
            char for char in lines[i + 1] if U+AC00 <= char <= U+D7A3):
            korean_notation = lines[i + 1].strip()
  \<close>
  The first marker is the two Hangul words U+D55C U+AE00, space, U+D45C U+AE30. \<open>rest\<close>
  holds the lines after the current one.
\<close>

definition hangul_marker :: pystr where
  "hangul_marker = [0xD55C, 0xAE00, 0x20, 0xD45C, 0xAE30]"

definition notation_step :: "pystr \<Rightarrow> pystr list \<Rightarrow> scan \<Rightarrow> scan" where
  "notation_step line rest st =
     (if (contains hangul_marker line \<or> contains (py ''Korean notation'') line
          \<or> contains (py ''recommended notation'') line \<or> contains (py ''Hangul'') line)
         \<and> korean_notation st = []
      then (if contains (py '':'') line
            then st\<lparr>korean_notation := strip (after_colon line)\<rparr>
            else (case rest of
                    [] \<Rightarrow> st
                  | following # _ \<Rightarrow>
                      if list_ex hangul_syllable following
                      then st\<lparr>korean_notation := strip following\<rparr> else st))
      else st)"

text \<open>
  \<^verbatim>\<open>
    if ("compliance" in line.lower() or "score" in line.lower()) and any(
        c.isdigit() for c in line):
        for word in line.split():
            if word.isdigit() or (word.endswith("%") and word[:-1].isdigit()):
                score_str = word.rstrip("%")
                try:
                    compliance_score = int(score_str)
                    compliant = compliance_score >= 80  # CF standard
                    break
                except ValueError:
                    pass
  \<close>
  \<open>first_score\<close> is the inner loop: the value of the first word that passes the test and
  that \<open>int\<close> converts; a word \<open>int\<close> rejects is passed over. \<open>line_score\<close> adds the
  condition on the line.
\<close>

fun first_score :: "pylib \<Rightarrow> pystr list \<Rightarrow> int option" where
  "first_score lib [] = None"
| "first_score lib (word # words) =
     (if isdigit lib word \<or> (endswith word (py ''%'') \<and> isdigit lib (butlast word))
      then (case py_int lib (rstrip_char 37 word) of
              Inr n \<Rightarrow> Some n
            | Inl e \<Rightarrow> first_score lib words)
      else first_score lib words)"

definition line_score :: "pylib \<Rightarrow> pystr \<Rightarrow> int option" where
  "line_score lib line =
     (if (contains (py ''compliance'') (str_lower lib line)
          \<or> contains (py ''score'') (str_lower lib line))
         \<and> list_ex (isdigit_char lib) line
      then first_score lib (split line) else None)"

definition score_step :: "pylib \<Rightarrow> pystr \<Rightarrow> scan \<Rightarrow> scan" where
  "score_step lib line st =
     (case line_score lib line of
        None \<Rightarrow> st
      | Some n \<Rightarrow> st\<lparr>compliance_score := n, compliant := (n \<ge> 80)\<rparr>)"

text \<open>
  The three list sections share one shape: after a heading line, the following lines are
  read up to the first blank line or the first line holding a keyword of another section,
  and the stripped lines that start with \<open>-\<close> or \<open>*\<close> are kept.
  \<^verbatim>\<open>
    j = i + 1
    while (j < len(lines) and lines[j].strip()
           and not any(k in lines[j].lower() for k in [...])):
        if lines[j].strip().startswith("-") or lines[j].strip().startswith("*"):
            verification_process.append(lines[j].strip())
        j += 1
  \<close>
\<close>

definition bullets :: "pylib \<Rightarrow> pystr list \<Rightarrow> pystr list \<Rightarrow> pystr list" where
  "bullets lib stops rest =
     filter (\<lambda>l. startswith l (py ''-'') \<or> startswith l (py ''*''))
       (map strip
          (takeWhile
             (\<lambda>l. strip l \<noteq> [] \<and> \<not> list_ex (\<lambda>k. contains k (str_lower lib l)) stops)
             rest))"

definition verification_step :: "pylib \<Rightarrow> pystr \<Rightarrow> pystr list \<Rightarrow> scan \<Rightarrow> scan" where
  "verification_step lib line rest st =
     (if contains (py ''verification process'') (str_lower lib line)
         \<or> contains (py ''verified using'') (str_lower lib line)
      then st\<lparr>verification_process :=
                bullets lib [py ''justification'', py ''recommendation'', py ''sources''] rest\<rparr>
      else st)"

definition recommendations_step :: "pylib \<Rightarrow> pystr \<Rightarrow> pystr list \<Rightarrow> scan \<Rightarrow> scan" where
  "recommendations_step lib line rest st =
     (if contains (py ''recommend'') (str_lower lib line)
         \<or> contains (py ''suggestion'') (str_lower lib line)
      then st\<lparr>recommendations := bullets lib [py ''sources'', py ''verification''] rest\<rparr>
      else st)"

definition sources_step :: "pylib \<Rightarrow> pystr \<Rightarrow> pystr list \<Rightarrow> scan \<Rightarrow> scan" where
  "sources_step lib line rest st =
     (if contains (py ''sources'') (str_lower lib line)
         \<or> contains (py ''references'') (str_lower lib line)
      then st\<lparr>sources := bullets lib [] rest\<rparr>
      else st)"

text \<open>One round of \<^verbatim>\<open>for i, line in enumerate(lines)\<close>: the five tests in the order of the
  source, on the stripped line.\<close>

definition scan_line :: "pylib \<Rightarrow> pystr \<Rightarrow> pystr list \<Rightarrow> scan \<Rightarrow> scan" where
  "scan_line lib raw rest st =
     (let line = strip raw in
      sources_step lib line rest
        (recommendations_step lib line rest
           (verification_step lib line rest
              (score_step lib line
                 (notation_step line rest st)))))"

fun scan_lines :: "pylib \<Rightarrow> pystr list \<Rightarrow> scan \<Rightarrow> scan" where
  "scan_lines lib [] st = st"
| "scan_lines lib (raw # rest) st = scan_lines lib rest (scan_line lib raw rest st)"

text \<open>
  The result dictionary. \<open>teamwork_verification\<close> is \<open>None\<close> when the key is absent: the
  source adds it only for a verification record that is true in a condition.
\<close>

record en_evaluation =
  en_name :: pystr
  en_korean_notation :: pystr
  en_overall_score :: int
  en_compliant :: bool
  en_verification_process :: "pystr list"
  en_recommendations :: "pystr list"
  en_sources :: "pystr list"
  en_full_evaluation :: pystr
  en_teamwork_verification :: "json option"

definition parse_evaluation :: "pylib \<Rightarrow> pystr \<Rightarrow> json \<Rightarrow> pystr \<Rightarrow> en_evaluation" where
  "parse_evaluation lib name teamwork_verification result =
     (let st = scan_lines lib (split_on 10 result) initial_scan in
      \<lparr> en_name = name,
        en_korean_notation = korean_notation st,
        en_overall_score = compliance_score st,
        en_compliant = compliant st,
        en_verification_process = verification_process st,
        en_recommendations = recommendations st,
        en_sources = sources st,
        en_full_evaluation = result,
        en_teamwork_verification =
          (if truthy teamwork_verification then Some teamwork_verification else None) \<rparr>)"

text \<open>
  The specification's wording of the inner loop, for comparison with \<open>first_score\<close>: a
  word is a score token when it is all digits, or all digits followed by \<open>%\<close>, and \<open>int\<close>
  converts it; the score of a line is its first score token.
\<close>

definition score_token :: "pylib \<Rightarrow> pystr \<Rightarrow> int option" where
  "score_token lib word =
     (if isdigit lib word \<or> (endswith word (py ''%'') \<and> isdigit lib (butlast word))
      then (case py_int lib (rstrip_char 37 word) of Inr n \<Rightarrow> Some n | Inl e \<Rightarrow> None)
      else None)"

text \<open>The scores of the lines that give one, in the order of the lines.\<close>

definition line_scores :: "pylib \<Rightarrow> pystr \<Rightarrow> int list" where
  "line_scores lib result =
     List.map_filter (\<lambda>raw. line_score lib (strip raw)) (split_on 10 result)"

section \<open>Korean to English: extraction from the JSON response\<close>

text \<open>
  \<^verbatim>\<open>name_evaluator\<close>, the closure \<^verbatim>\<open>create_ko_to_en_evaluator\<close> of
  \<^verbatim>\<open>korean_to_english_evaluator.py\<close> returns. The three calls of \<open>re.search\<close> are
  modelled by \<open>re_search\<close>, which tries a matcher at every position from the left, and
  one matcher for each pattern. \<open>quoted\<close> writes a literal between double quotes.
\<close>

definition quoted :: "string \<Rightarrow> pystr" where
  "quoted s = 34 # py s @ [34]"

fun re_search :: "(pystr \<Rightarrow> 'a option) \<Rightarrow> pystr \<Rightarrow> 'a option" where
  "re_search matcher [] = matcher []"
| "re_search matcher (c # cs) =
     (case matcher (c # cs) of
        Some g \<Rightarrow> Some g
      | None \<Rightarrow> re_search matcher cs)"

text \<open>
  The pattern of the code fence, with \<open>re.DOTALL\<close>: three backticks, an optional \<open>json\<close>,
  the shortest text up to the next three backticks (the group). \<open>until_fence\<close> is the lazy
  \<open>(.*?)\<close> followed by the closing backticks.
\<close>

definition backticks :: pystr where
  "backticks = [96, 96, 96]"

fun until_fence :: "pystr \<Rightarrow> pystr option" where
  "until_fence [] = None"
| "until_fence (c # cs) =
     (if startswith (c # cs) backticks then Some []
      else map_option (\<lambda>g. c # g) (until_fence cs))"

definition match_fence :: "pystr \<Rightarrow> pystr option" where
  "match_fence s =
     (if startswith s backticks
      then (let r = drop 3 s in
            case (if startswith r (py ''json'') then until_fence (drop 4 r) else None) of
              Some g \<Rightarrow> Some g
            | None \<Rightarrow> until_fence r)
      else None)"

text \<open>The pattern \<open>"english_notation":\s*"([^"]+)"\<close>; the group is the text between the
  quotes.\<close>

definition match_english_notation :: "pystr \<Rightarrow> pystr option" where
  "match_english_notation s =
     (let key = quoted ''english_notation'' @ py '':'' in
      if startswith s key
      then (case dropWhile whitespace (drop (length key) s) of
              [] \<Rightarrow> None
            | q # r \<Rightarrow>
                if q = 34 \<and> takeWhile (\<lambda>c. c \<noteq> 34) r \<noteq> [] \<and> dropWhile (\<lambda>c. c \<noteq> 34) r \<noteq> []
                then Some (takeWhile (\<lambda>c. c \<noteq> 34) r) else None)
      else None)"

text \<open>The pattern \<open>"compliant":\s*(true|false)\<close> with \<open>re.IGNORECASE\<close>, which applies to
  the key as well as to the two words.\<close>

fun startswith_ignorecase :: "pylib \<Rightarrow> pystr \<Rightarrow> pystr \<Rightarrow> bool" where
  "startswith_ignorecase lib s [] = True"
| "startswith_ignorecase lib [] (p # ps) = False"
| "startswith_ignorecase lib (c # cs) (p # ps) =
     (ignorecase_eq lib p c \<and> startswith_ignorecase lib cs ps)"

definition match_compliant :: "pylib \<Rightarrow> pystr \<Rightarrow> pystr option" where
  "match_compliant lib s =
     (let key = quoted ''compliant'' @ py '':'' in
      if startswith_ignorecase lib s key
      then (let r = dropWhile whitespace (drop (length key) s) in
            if startswith_ignorecase lib r (py ''true'') then Some (take 4 r)
            else if startswith_ignorecase lib r (py ''false'') then Some (take 5 r)
            else None)
      else None)"

text \<open>The pattern \<open>"overall_score":\s*(\d+)\<close>; the group is the longest run of decimal
  digits.\<close>

definition match_overall_score :: "pylib \<Rightarrow> pystr \<Rightarrow> pystr option" where
  "match_overall_score lib s =
     (let key = quoted ''overall_score'' @ py '':'' in
      if startswith s key
      then (let g = takeWhile (\<lambda>c. decimal_value lib c \<noteq> None)
                      (dropWhile whitespace (drop (length key) s)) in
            if g = [] then None else Some g)
      else None)"

text \<open>
  The evaluation dictionary. The first eight keys are set when the dictionary is created;
  the others exist only after the update from parsed JSON, so they are optional. The note
  text is kept as its parts: the raw response, then a part for each handler that ran, with
  the exception whose message the source appends.
\<close>

datatype note_part =
    RawEvaluation pystr
  | JSONParsingError pyerror
  | RegexFallbackError pyerror

record ko_evaluation =
  ko_name :: pystr
  ko_english_notation :: json
  ko_verification_process :: json
  ko_verification_sources :: json
  ko_compliant :: json
  ko_overall_score :: json
  ko_notes :: "note_part list"
  ko_teamwork_verification :: json
  ko_romanization_compliant :: "json option"
  ko_hyphenation_compliant :: "json option"
  ko_capitalization_compliant :: "json option"
  ko_reference_links :: "json option"
  ko_termbase_entry :: "json option"
  ko_recommendations :: "json option"

definition default_evaluation :: "pystr \<Rightarrow> json \<Rightarrow> pystr \<Rightarrow> ko_evaluation" where
  "default_evaluation name teamwork_results response_text =
     \<lparr> ko_name = name,
       ko_english_notation = JStr [],
       ko_verification_process = JObj [],
       ko_verification_sources = JArr [],
       ko_compliant = JBool False,
       ko_overall_score = JInt 0,
       ko_notes = [RawEvaluation response_text],
       ko_teamwork_verification = teamwork_results,
       ko_romanization_compliant = None,
       ko_hyphenation_compliant = None,
       ko_capitalization_compliant = None,
       ko_reference_links = None,
       ko_termbase_entry = None,
       ko_recommendations = None \<rparr>"

text \<open>\<^verbatim>\<open>evaluation.update({...})\<close> with the values \<open>data.get(key, default)\<close>.\<close>

definition update_from_json :: "(pystr \<times> json) list \<Rightarrow> ko_evaluation \<Rightarrow> ko_evaluation" where
  "update_from_json data evaluation =
     evaluation
       \<lparr> ko_english_notation := dict_get data (py ''english_notation'') (JStr []),
         ko_romanization_compliant :=
           Some (dict_get data (py ''romanization_compliant'') (JBool False)),
         ko_hyphenation_compliant :=
           Some (dict_get data (py ''hyphenation_compliant'') (JBool False)),
         ko_capitalization_compliant :=
           Some (dict_get data (py ''capitalization_compliant'') (JBool False)),
         ko_verification_process := dict_get data (py ''verification_process'') (JObj []),
         ko_verification_sources := dict_get data (py ''verification_sources'') (JArr []),
         ko_reference_links := Some (dict_get data (py ''reference_links'') (JArr [])),
         ko_termbase_entry := Some (dict_get data (py ''termbase_entry'') (JObj [])),
         ko_compliant := dict_get data (py ''compliant'') (JBool False),
         ko_overall_score := dict_get data (py ''overall_score'') (JInt 0),
         ko_recommendations := Some (dict_get data (py ''recommendations'') (JArr [])) \<rparr>"

text \<open>
  The handler of the first \<open>try\<close>: the three searches on the whole response. Only \<open>int\<close>
  can raise there; the second handler then records the exception, and the notation and
  the flag set before it stay.
\<close>

definition regex_fallback :: "pylib \<Rightarrow> pystr \<Rightarrow> ko_evaluation \<Rightarrow> ko_evaluation" where
  "regex_fallback lib response_text evaluation =
     (let e1 = (case re_search match_english_notation response_text of
                  Some g \<Rightarrow> evaluation\<lparr>ko_english_notation := JStr (strip g)\<rparr>
                | None \<Rightarrow> evaluation);
          e2 = (case re_search (match_compliant lib) response_text of
                  Some g \<Rightarrow> e1\<lparr>ko_compliant := JBool (str_lower lib g = py ''true'')\<rparr>
                | None \<Rightarrow> e1)
      in case re_search (match_overall_score lib) response_text of
           None \<Rightarrow> e2
         | Some g \<Rightarrow>
             (case py_int lib g of
                Inr n \<Rightarrow> e2\<lparr>ko_overall_score := JInt n\<rparr>
              | Inl err \<Rightarrow> e2\<lparr>ko_notes := ko_notes e2 @ [RegexFallbackError err]\<rparr>))"

text \<open>
  The first \<open>try\<close> block: the text inside a code fence if there is one, else the whole
  response, goes to \<open>json.loads\<close>, a parameter of the model (\<open>loads\<close>, with the exception
  it raises on the left). \<open>data.get\<close> exists on a dictionary only: for any other parsed
  value the first call raises AttributeError, inside the same \<open>try\<close>.
\<close>

definition json_text :: "pystr \<Rightarrow> pystr" where
  "json_text response_text =
     (case re_search match_fence response_text of
        Some g \<Rightarrow> strip g
      | None \<Rightarrow> response_text)"

definition parse_object :: "(pystr \<Rightarrow> pyerror + json) \<Rightarrow> pystr \<Rightarrow> pyerror + (pystr \<times> json) list"
  where
  "parse_object loads response_text =
     (case loads (json_text response_text) of
        Inl e \<Rightarrow> Inl e
      | Inr (JObj data) \<Rightarrow> Inr data
      | Inr other \<Rightarrow> Inl AttributeError)"

definition extract_evaluation ::
  "pylib \<Rightarrow> (pystr \<Rightarrow> pyerror + json) \<Rightarrow> pystr \<Rightarrow> json \<Rightarrow> pystr \<Rightarrow> ko_evaluation" where
  "extract_evaluation lib loads name teamwork_results response_text =
     (let evaluation = default_evaluation name teamwork_results response_text in
      case parse_object loads response_text of
        Inr data \<Rightarrow> update_from_json data evaluation
      | Inl e \<Rightarrow>
          regex_fallback lib response_text
            (evaluation\<lparr>ko_notes := ko_notes evaluation @ [JSONParsingError e]\<rparr>))"

text \<open>
  The context given to the prompt.
  \<^verbatim>\<open>
    if isinstance(teamwork_results, dict) and teamwork_results.get("matches"):
        matches = teamwork_results.get("matches", [])
        teamwork_context = "Previous translations found in Teamwork:\n"
        for match in matches:
            teamwork_context += f"- Task: {match.get('task_name')}\n"
            teamwork_context += (
                f"  Translation: {match.get('translation', 'Not specified')}\n")
    else:
        teamwork_context = "No previous translations found in Teamwork."
  \<close>
  Nothing handles an exception here: a value of \<open>matches\<close> that is not iterable, or a match
  that is no dictionary, ends the call.
\<close>

fun format_matches :: "pylib \<Rightarrow> pystr \<Rightarrow> json list \<Rightarrow> pyerror + pystr" where
  "format_matches lib context [] = Inr context"
| "format_matches lib context (m # ms) =
     (case m of
        JObj d \<Rightarrow>
          format_matches lib
            (context
               @ py ''- Task: '' @ format_value lib (dict_get d (py ''task_name'') JNull) @ [10]
               @ py ''  Translation: ''
               @ format_value lib (dict_get d (py ''translation'') (JStr (py ''Not specified'')))
               @ [10])
            ms
      | _ \<Rightarrow> Inl AttributeError)"

definition teamwork_context :: "pylib \<Rightarrow> json \<Rightarrow> pyerror + pystr" where
  "teamwork_context lib teamwork_results =
     (case teamwork_results of
        JObj d \<Rightarrow>
          if truthy (dict_get d (py ''matches'') JNull)
          then (case py_iter (dict_get d (py ''matches'') (JArr [])) of
                  Inl e \<Rightarrow> Inl e
                | Inr matches \<Rightarrow>
                    format_matches lib
                      (py ''Previous translations found in Teamwork:'' @ [10]) matches)
          else Inr (py ''No previous translations found in Teamwork.'')
      | _ \<Rightarrow> Inr (py ''No previous translations found in Teamwork.''))"

text \<open>
  The language model is an oracle outside the program: given the state of the world and
  the variables of the prompt it answers with a text or raises (a transport failure), and
  the world moves on. \<open>process_text\<close> and \<open>resources_text\<close> are constants of the prompt.
\<close>

record prompt_input =
  prompt_name :: pystr
  prompt_teamwork_context :: pystr

type_synonym 'w llm = "prompt_input \<Rightarrow> 'w \<Rightarrow> (pyerror + pystr) \<times> 'w"

definition name_evaluator ::
  "pylib \<Rightarrow> (pystr \<Rightarrow> pyerror + json) \<Rightarrow> 'w llm \<Rightarrow> pystr \<Rightarrow> json \<Rightarrow> 'w
     \<Rightarrow> (pyerror + ko_evaluation) \<times> 'w" where
  "name_evaluator lib loads chain name teamwork_results w =
     (case teamwork_context lib teamwork_results of
        Inl e \<Rightarrow> (Inl e, w)
      | Inr context \<Rightarrow>
          (case chain \<lparr>prompt_name = name, prompt_teamwork_context = context\<rparr> w of
             (Inl e, w') \<Rightarrow> (Inl e, w')
           | (Inr response_text, w') \<Rightarrow>
               (Inr (extract_evaluation lib loads name teamwork_results response_text), w')))"

text \<open>
  \<^verbatim>\<open>evaluate_korean_names\<close>: the loop calls the evaluator with the flag \<open>check_teamwork\<close>
  as second argument and has no handler, so the first raise ends it.
  \<^verbatim>\<open>
    for name in names:
        result = evaluator(name, check_teamwork)
        results.append(result)
  \<close>
\<close>

fun evaluate_korean_names ::
  "pylib \<Rightarrow> (pystr \<Rightarrow> pyerror + json) \<Rightarrow> 'w llm \<Rightarrow> pystr list \<Rightarrow> bool \<Rightarrow> 'w
     \<Rightarrow> (pyerror + ko_evaluation list) \<times> 'w" where
  "evaluate_korean_names lib loads chain [] check_teamwork w = (Inr [], w)"
| "evaluate_korean_names lib loads chain (name # names) check_teamwork w =
     (case name_evaluator lib loads chain name (JBool check_teamwork) w of
        (Inl e, w') \<Rightarrow> (Inl e, w')
      | (Inr result, w') \<Rightarrow>
          (case evaluate_korean_names lib loads chain names check_teamwork w' of
             (Inl e, w'') \<Rightarrow> (Inl e, w'')
           | (Inr results, w'') \<Rightarrow> (Inr (result # results), w'')))"

section \<open>External verification client\<close>

text \<open>
  \<^verbatim>\<open>teamwork_integration.py\<close>. The service is an oracle outside the program:
  \<open>requests.get(url, headers)\<close> either raises (no connection) or returns a response with
  a status code and a body, and the world moves on. \<open>json_body\<close> is what \<open>response.json()\<close>
  gives: the parsed value, or the exception it raises on a body that is no JSON. The
  authorization header is the same in every call and is left out of the request.
\<close>

record response =
  status_code :: nat
  json_body :: "pyerror + json"

type_synonym 'w http = "pystr \<Rightarrow> 'w \<Rightarrow> (pyerror + response) \<times> 'w"

text \<open>\<open>response.raise_for_status()\<close> of the \<open>requests\<close> library raises HTTPError for a
  status from 400 to 599 and returns for every other status.\<close>

definition raise_for_status :: "response \<Rightarrow> pyerror + unit" where
  "raise_for_status r =
     (if 400 \<le> status_code r \<and> status_code r < 600 then Inl (HTTPError (status_code r))
      else Inr ())"

text \<open>
  The two listing methods have one body:
  \<^verbatim>\<open>
    response = requests.get(url, headers=self.auth_header)
    if response.status_code == 200:
        return response.json().get("projects", [])
    else:
        response.raise_for_status()
  \<close>
  When \<open>raise_for_status\<close> returns, the method ends without a \<open>return\<close> and its value
  is \<open>None\<close>.
\<close>

definition get_listing :: "'w http \<Rightarrow> pystr \<Rightarrow> pystr \<Rightarrow> 'w \<Rightarrow> (pyerror + json) \<times> 'w" where
  "get_listing http url key w =
     (case http url w of
        (Inl e, w') \<Rightarrow> (Inl e, w')
      | (Inr r, w') \<Rightarrow>
          if status_code r = 200
          then (case json_body r of
                  Inl e \<Rightarrow> (Inl e, w')
                | Inr (JObj d) \<Rightarrow> (Inr (dict_get d key (JArr [])), w')
                | Inr other \<Rightarrow> (Inl AttributeError, w'))
          else (case raise_for_status r of
                  Inl e \<Rightarrow> (Inl e, w')
                | Inr u \<Rightarrow> (Inr JNull, w')))"

definition get_projects :: "'w http \<Rightarrow> pystr \<Rightarrow> pystr \<Rightarrow> 'w \<Rightarrow> (pyerror + json) \<times> 'w" where
  "get_projects http base_url status w =
     get_listing http (base_url @ py ''/projects.json?status='' @ status) (py ''projects'') w"

definition get_tasks_by_project ::
  "pylib \<Rightarrow> 'w http \<Rightarrow> pystr \<Rightarrow> json \<Rightarrow> 'w \<Rightarrow> (pyerror + json) \<times> 'w" where
  "get_tasks_by_project lib http base_url project_id w =
     get_listing http
       (base_url @ py ''/projects/'' @ format_value lib project_id @ py ''/tasks.json'')
       (py ''todo-items'') w"

text \<open>\<open>v.lower()\<close> exists on a string and raises AttributeError on any other parsed
  value; \<open>d[key] = v\<close> replaces or adds an item.\<close>

definition py_lower :: "pylib \<Rightarrow> json \<Rightarrow> pyerror + pystr" where
  "py_lower lib v = (case v of JStr s \<Rightarrow> Inr (str_lower lib s) | _ \<Rightarrow> Inl AttributeError)"

definition dict_set :: "(pystr \<times> json) list \<Rightarrow> pystr \<Rightarrow> json \<Rightarrow> (pystr \<times> json) list" where
  "dict_set d key v =
     (if key \<in> fst ` set d then map (\<lambda>kv. if fst kv = key then (key, v) else kv) d
      else d @ [(key, v)])"

text \<open>
  The inner loop of \<^verbatim>\<open>search_tasks\<close> over the tasks of one project. A task that is no
  dictionary, or whose content or description is no string, raises; the matches of the
  project collected so far are then lost with it.
  \<^verbatim>\<open>
    for task in tasks:
        content = task.get("content", "").lower()
        description = task.get("description", "").lower()
        if query_lower in content or query_lower in description:
            task["projectName"] = project.get("name")
            matching_tasks.append(task)
  \<close>
\<close>

fun matching_tasks :: "pylib \<Rightarrow> pystr \<Rightarrow> json \<Rightarrow> json list \<Rightarrow> pyerror + json list" where
  "matching_tasks lib query_lower project_name [] = Inr []"
| "matching_tasks lib query_lower project_name (task # tasks) =
     (case task of
        JObj d \<Rightarrow>
          (case py_lower lib (dict_get d (py ''content'') (JStr [])) of
             Inl e \<Rightarrow> Inl e
           | Inr content \<Rightarrow>
               (case py_lower lib (dict_get d (py ''description'') (JStr [])) of
                  Inl e \<Rightarrow> Inl e
                | Inr description \<Rightarrow>
                    (case matching_tasks lib query_lower project_name tasks of
                       Inl e \<Rightarrow> Inl e
                     | Inr found \<Rightarrow>
                         if contains query_lower content \<or> contains query_lower description
                         then Inr (JObj (dict_set d (py ''projectName'') project_name) # found)
                         else Inr found)))
      | _ \<Rightarrow> Inl AttributeError)"

text \<open>
  The body of the \<open>try\<close> in \<^verbatim>\<open>search_tasks\<close> for one project, and the loop over the
  projects. An exception of the body is printed and the project is skipped; the lookup of
  the project's id stands before the \<open>try\<close> and is not protected.
\<close>

definition project_tasks ::
  "pylib \<Rightarrow> 'w http \<Rightarrow> pystr \<Rightarrow> pystr \<Rightarrow> (pystr \<times> json) list \<Rightarrow> 'w
     \<Rightarrow> (pyerror + json list) \<times> 'w" where
  "project_tasks lib http base_url query project w =
     (case get_tasks_by_project lib http base_url (dict_get project (py ''id'') JNull) w of
        (Inl e, w') \<Rightarrow> (Inl e, w')
      | (Inr tasks, w') \<Rightarrow>
          (case py_iter tasks of
             Inl e \<Rightarrow> (Inl e, w')
           | Inr ts \<Rightarrow>
               (matching_tasks lib (str_lower lib query) (dict_get project (py ''name'') JNull) ts,
                w')))"

fun search_projects ::
  "pylib \<Rightarrow> 'w http \<Rightarrow> pystr \<Rightarrow> pystr \<Rightarrow> json list \<Rightarrow> 'w \<Rightarrow> (pyerror + json list) \<times> 'w"
  where
  "search_projects lib http base_url query [] w = (Inr [], w)"
| "search_projects lib http base_url query (project # projects) w =
     (case project of
        JObj p \<Rightarrow>
          (case project_tasks lib http base_url query p w of
             (outcome, w') \<Rightarrow>
               (case search_projects lib http base_url query projects w' of
                  (Inl e, w'') \<Rightarrow> (Inl e, w'')
                | (Inr others, w'') \<Rightarrow>
                    (Inr ((case outcome of Inl e \<Rightarrow> [] | Inr found \<Rightarrow> found) @ others), w'')))
      | _ \<Rightarrow> (Inl AttributeError, w))"

definition search_tasks ::
  "pylib \<Rightarrow> 'w http \<Rightarrow> pystr \<Rightarrow> pystr \<Rightarrow> 'w \<Rightarrow> (pyerror + json list) \<times> 'w" where
  "search_tasks lib http base_url query w =
     (case get_projects http base_url (py ''active'') w of
        (Inl e, w') \<Rightarrow> (Inl e, w')
      | (Inr projects, w') \<Rightarrow>
          (case py_iter projects of
             Inl e \<Rightarrow> (Inl e, w')
           | Inr ps \<Rightarrow> search_projects lib http base_url query ps w'))"

text \<open>
  \<^verbatim>\<open>TeamworkClient()\<close> reads the key and the domain from the environment and raises
  ValueError without a key; what the methods need of the client is its base URL.
\<close>

record environ =
  TEAMWORK_API_KEY :: "pystr option"
  TEAMWORK_DOMAIN :: "pystr option"

definition TeamworkClient :: "environ \<Rightarrow> pyerror + pystr" where
  "TeamworkClient env =
     (case TEAMWORK_API_KEY env of
        None \<Rightarrow> Inl ValueError
      | Some api_key \<Rightarrow>
          if api_key = [] then Inl ValueError
          else Inr (py ''https://''
                    @ (case TEAMWORK_DOMAIN env of None \<Rightarrow> py ''cultureflipper'' | Some d \<Rightarrow> d)
                    @ py ''.teamwork.com''))"

text \<open>
  \<^verbatim>\<open>search_name_in_teamwork\<close>: the matching tasks in a fixed format. Its handler prints and
  raises the exception again, so the function raises what its body raises.
\<close>

definition formatted_task :: "pylib \<Rightarrow> pystr \<Rightarrow> json \<Rightarrow> pyerror + json" where
  "formatted_task lib base_url task =
     (case task of
        JObj d \<Rightarrow>
          Inr (JObj
            [(py ''id'', dict_get d (py ''id'') JNull),
             (py ''content'', dict_get d (py ''content'') (JStr [])),
             (py ''description'', dict_get d (py ''description'') (JStr [])),
             (py ''projectId'', dict_get d (py ''projectId'') JNull),
             (py ''projectName'', dict_get d (py ''projectName'') (JStr (py ''Unknown Project''))),
             (py ''url'', JStr (base_url @ py ''/tasks/'' @ format_value lib (dict_get d (py ''id'') JNull))),
             (py ''created-on'',
                dict_get d (py ''created-on'') (dict_get d (py ''created-date'') (JStr [])))])
      | _ \<Rightarrow> Inl AttributeError)"

fun enrich_tasks :: "pylib \<Rightarrow> pystr \<Rightarrow> json list \<Rightarrow> pyerror + json list" where
  "enrich_tasks lib base_url [] = Inr []"
| "enrich_tasks lib base_url (task # tasks) =
     (case formatted_task lib base_url task of
        Inl e \<Rightarrow> Inl e
      | Inr t \<Rightarrow>
          (case enrich_tasks lib base_url tasks of
             Inl e \<Rightarrow> Inl e
           | Inr ts \<Rightarrow> Inr (t # ts)))"

definition search_name_in_teamwork ::
  "environ \<Rightarrow> pylib \<Rightarrow> 'w http \<Rightarrow> pystr \<Rightarrow> 'w \<Rightarrow> (pyerror + json list) \<times> 'w" where
  "search_name_in_teamwork env lib http name w =
     (case TeamworkClient env of
        Inl e \<Rightarrow> (Inl e, w)
      | Inr base_url \<Rightarrow>
          (case search_tasks lib http base_url name w of
             (Inl e, w') \<Rightarrow> (Inl e, w')
           | (Inr tasks, w') \<Rightarrow> (enrich_tasks lib base_url tasks, w')))"

text \<open>
  \<^verbatim>\<open>get_previous_evaluations\<close>: the tasks of a second search whose title marks a name
  evaluation. \<open>x in v\<close> on a value that is no string, list or dictionary raises TypeError.
\<close>

definition is_evaluation_task :: "pylib \<Rightarrow> json \<Rightarrow> pyerror + bool" where
  "is_evaluation_task lib task =
     (case task of
        JObj d \<Rightarrow>
          (case dict_get d (py ''content'') (JStr []) of
             JStr task_name \<Rightarrow>
               Inr (contains (py ''Name Evaluation:'') task_name
                    \<or> contains (py ''name evaluation'') (str_lower lib task_name))
           | JArr xs \<Rightarrow>
               if JStr (py ''Name Evaluation:'') \<in> set xs then Inr True else Inl AttributeError
           | JObj kvs \<Rightarrow>
               if py ''Name Evaluation:'' \<in> fst ` set kvs then Inr True else Inl AttributeError
           | _ \<Rightarrow> Inl TypeError)
      | _ \<Rightarrow> Inl AttributeError)"

definition evaluation_record :: "json \<Rightarrow> json" where
  "evaluation_record task =
     (case task of
        JObj d \<Rightarrow>
          JObj [(py ''task_id'', dict_get d (py ''id'') JNull),
                (py ''project_id'', dict_get d (py ''projectId'') JNull),
                (py ''title'', dict_get d (py ''content'') JNull),
                (py ''url'', dict_get d (py ''url'') JNull),
                (py ''created_at'', dict_get d (py ''created-on'') JNull)]
      | _ \<Rightarrow> JNull)"

fun evaluation_tasks :: "pylib \<Rightarrow> json list \<Rightarrow> pyerror + json list" where
  "evaluation_tasks lib [] = Inr []"
| "evaluation_tasks lib (task # tasks) =
     (case is_evaluation_task lib task of
        Inl e \<Rightarrow> Inl e
      | Inr is_evaluation \<Rightarrow>
          (case evaluation_tasks lib tasks of
             Inl e \<Rightarrow> Inl e
           | Inr evaluations \<Rightarrow>
               Inr (if is_evaluation then evaluation_record task # evaluations
                    else evaluations)))"

definition get_previous_evaluations ::
  "environ \<Rightarrow> pylib \<Rightarrow> 'w http \<Rightarrow> pystr \<Rightarrow> 'w \<Rightarrow> (pyerror + json list) \<times> 'w" where
  "get_previous_evaluations env lib http name w =
     (case search_name_in_teamwork env lib http name w of
        (Inl e, w') \<Rightarrow> (Inl e, w')
      | (Inr search_results, w') \<Rightarrow> (evaluation_tasks lib search_results, w'))"

text \<open>
  \<^verbatim>\<open>verify_name_in_teamwork\<close>. A first request, made for troubleshooting, is wrapped in
  its own handler and changes nothing but the world. The verification proper is one
  \<open>try\<close> whose handler catches every exception and returns the error record, which has
  no list of translations or evaluations.
\<close>

record verification =
  v_name :: pystr
  found_in_teamwork :: bool
  previous_translations :: "json list option"
  previous_evaluations :: "json list option"
  v_error :: "pyerror option"
  verification_status :: pystr

definition verification_body ::
  "environ \<Rightarrow> pylib \<Rightarrow> 'w http \<Rightarrow> pystr \<Rightarrow> 'w \<Rightarrow> (pyerror + verification) \<times> 'w" where
  "verification_body env lib http name w =
     (case search_name_in_teamwork env lib http name w of
        (Inl e, w') \<Rightarrow> (Inl e, w')
      | (Inr results, w') \<Rightarrow>
          (case get_previous_evaluations env lib http name w' of
             (Inl e, w'') \<Rightarrow> (Inl e, w'')
           | (Inr evaluations, w'') \<Rightarrow>
               (Inr \<lparr> v_name = name,
                      found_in_teamwork = (results \<noteq> [] \<or> evaluations \<noteq> []),
                      previous_translations = Some results,
                      previous_evaluations = Some evaluations,
                      v_error = None,
                      verification_status =
                        (if evaluations \<noteq> [] then py ''Verified - multiple evaluations found''
                         else if results \<noteq> []
                           then py ''Prior translations found - detailed verification needed''
                         else py ''Not found in Teamwork records'') \<rparr>,
                w'')))"

definition verify_name_in_teamwork ::
  "environ \<Rightarrow> pylib \<Rightarrow> 'w http \<Rightarrow> pystr \<Rightarrow> 'w \<Rightarrow> (pyerror + verification) \<times> 'w" where
  "verify_name_in_teamwork env lib http name w =
     (case http (py ''https://cultureflipper.teamwork.com/projects.json'') w of
        (direct_check, w1) \<Rightarrow>
          (case verification_body env lib http name w1 of
             (Inr verification_result, w2) \<Rightarrow> (Inr verification_result, w2)
           | (Inl e, w2) \<Rightarrow>
               (Inr \<lparr> v_name = name,
                      found_in_teamwork = False,
                      previous_translations = None,
                      previous_evaluations = None,
                      v_error = Some e,
                      verification_status = py ''Error - could not verify'' \<rparr>,
                w2)))"

section \<open>Batch evaluation\<close>

text \<open>
  Two of the three batch functions wrap the evaluation of a name in a handler that
  replaces the result by an error record:
  \<^verbatim>\<open>
    except Exception as e:
        results.append(
            {"name": name, "error": str(e), "compliant": False, "overall_score": 0})
  \<close>
  The record keeps the exception whose message is stored under \<open>error\<close>. An entry of the
  result list is either the dictionary the evaluator returned or such a record.
\<close>

record error_record =
  err_name :: pystr
  err_error :: pyerror
  err_compliant :: bool
  err_overall_score :: int

datatype 'r batch_entry = Evaluated 'r | Failed error_record

definition error_entry :: "pystr \<Rightarrow> pyerror \<Rightarrow> 'r batch_entry" where
  "error_entry name e =
     Failed \<lparr> err_name = name, err_error = e, err_compliant = False, err_overall_score = 0 \<rparr>"

text \<open>
  The block at the head of \<^verbatim>\<open>evaluate_english_name\<close> and of \<^verbatim>\<open>evaluate_name\<close> that asks
  the verification client and words its answer for the prompt is wrapped in a handler of
  its own and never raises. It is a parameter here: given the name and the flag it yields
  the verification record (\<open>None\<close> without one) and the text \<open>teamwork_info\<close>.
  \<open>no_teamwork\<close> is the block when the flag is off or the client is not configured.
\<close>

type_synonym 'w teamwork_block = "pystr \<Rightarrow> bool \<Rightarrow> 'w \<Rightarrow> (json \<times> pystr) \<times> 'w"

definition no_teamwork :: "'w teamwork_block" where
  "no_teamwork name check_teamwork w = ((JNull, []), w)"

text \<open>
  \<^verbatim>\<open>evaluate_english_name\<close>: the block, the call of the model (the chain stands for
  building the client and invoking it, and gets \<open>teamwork_info\<close> as context), and the
  parsing of the text. Nothing handles an exception of the call.
\<close>

definition evaluate_english_name ::
  "pylib \<Rightarrow> 'w teamwork_block \<Rightarrow> 'w llm \<Rightarrow> pystr \<Rightarrow> bool \<Rightarrow> 'w
     \<Rightarrow> (pyerror + en_evaluation) \<times> 'w" where
  "evaluate_english_name lib block chain name check_teamwork w =
     (case block name check_teamwork w of
        ((teamwork_verification, teamwork_info), w1) \<Rightarrow>
          (case chain \<lparr>prompt_name = name, prompt_teamwork_context = teamwork_info\<rparr> w1 of
             (Inl e, w2) \<Rightarrow> (Inl e, w2)
           | (Inr result, w2) \<Rightarrow>
               (Inr (parse_evaluation lib name teamwork_verification result), w2)))"

text \<open>
  \<^verbatim>\<open>evaluate_english_names\<close>:
  \<^verbatim>\<open>
    for name in names:
        try:
            result = evaluate_english_name(name, check_teamwork)
            results.append(result)
        except Exception as e:
            results.append({...})
  \<close>
  The report file written after the loop is not part of the model.
\<close>

fun evaluate_english_names ::
  "pylib \<Rightarrow> 'w teamwork_block \<Rightarrow> 'w llm \<Rightarrow> pystr list \<Rightarrow> bool \<Rightarrow> 'w
     \<Rightarrow> en_evaluation batch_entry list \<times> 'w" where
  "evaluate_english_names lib block chain [] check_teamwork w = ([], w)"
| "evaluate_english_names lib block chain (name # names) check_teamwork w =
     (case evaluate_english_name lib block chain name check_teamwork w of
        (outcome, w') \<Rightarrow>
          (case evaluate_english_names lib block chain names check_teamwork w' of
             (results, w'') \<Rightarrow>
               ((case outcome of
                   Inr result \<Rightarrow> Evaluated result
                 | Inl e \<Rightarrow> error_entry name e) # results,
                w'')))"

text \<open>
  \<^verbatim>\<open>evaluate_name\<close> of \<^verbatim>\<open>korean_name_evaluator.py\<close>. The structured chain returns a
  validated \<^verbatim>\<open>NameEvaluationResult\<close>; when it raises, the handler asks the model for plain
  text and builds a minimal result, and an exception of that second call leaves the
  function. Both kinds of result have the fields of the schema.
\<close>

record name_evaluation =
  ne_name :: pystr
  ne_language_direction :: pystr
  ne_compliant :: bool
  ne_overall_score :: int
  ne_rule_scores :: "(pystr \<times> int) list"
  ne_recommendations :: "pystr list"
  ne_verification_sources :: "pystr list"
  ne_notes :: "pystr option"
  ne_teamwork_verification :: json

record chain_input =
  input_name :: pystr
  input_direction :: pystr
  input_teamwork_info :: pystr

definition evaluate_name ::
  "pylib \<Rightarrow> 'w teamwork_block \<Rightarrow> (chain_input \<Rightarrow> 'w \<Rightarrow> (pyerror + name_evaluation) \<times> 'w)
     \<Rightarrow> (chain_input \<Rightarrow> 'w \<Rightarrow> (pyerror + pystr) \<times> 'w) \<Rightarrow> pystr \<Rightarrow> pystr \<Rightarrow> bool \<Rightarrow> 'w
     \<Rightarrow> (pyerror + name_evaluation) \<times> 'w" where
  "evaluate_name lib block extraction_chain text_chain name direction check_teamwork w =
     (case block name check_teamwork w of
        ((teamwork_verification, teamwork_info), w1) \<Rightarrow>
          (let input_data = \<lparr> input_name = name, input_direction = direction,
                               input_teamwork_info = teamwork_info \<rparr> in
           case extraction_chain input_data w1 of
             (Inr result, w2) \<Rightarrow>
               (Inr (if truthy teamwork_verification
                     then result\<lparr>ne_teamwork_verification := teamwork_verification\<rparr>
                     else result), w2)
           | (Inl e, w2) \<Rightarrow>
               (case text_chain input_data w2 of
                  (Inl e', w3) \<Rightarrow> (Inl e', w3)
                | (Inr evaluation_text, w3) \<Rightarrow>
                    (Inr \<lparr> ne_name = name,
                           ne_language_direction = direction,
                           ne_compliant = contains (py ''compliant'') (str_lower lib evaluation_text),
                           ne_overall_score = 0,
                           ne_rule_scores =
                             [(py ''Internal Verification'', 0), (py ''External Verification'', 0),
                              (py ''Rule Compliance'', 0)],
                           ne_recommendations = [py ''Review the manual verification process''],
                           ne_verification_sources = [py ''CF Terminology Management Manual''],
                           ne_notes =
                             Some (py ''Error in structured extraction. Raw evaluation:'' @ [10]
                                   @ evaluation_text),
                           ne_teamwork_verification = teamwork_verification \<rparr>,
                     w3))))"

text \<open>\<^verbatim>\<open>batch_evaluate_names\<close>: the same loop with a handler as for the English names.\<close>

fun batch_evaluate_names ::
  "pylib \<Rightarrow> 'w teamwork_block \<Rightarrow> (chain_input \<Rightarrow> 'w \<Rightarrow> (pyerror + name_evaluation) \<times> 'w)
     \<Rightarrow> (chain_input \<Rightarrow> 'w \<Rightarrow> (pyerror + pystr) \<times> 'w) \<Rightarrow> pystr list \<Rightarrow> pystr \<Rightarrow> bool \<Rightarrow> 'w
     \<Rightarrow> name_evaluation batch_entry list \<times> 'w" where
  "batch_evaluate_names lib block extraction_chain text_chain [] direction check_teamwork w =
     ([], w)"
| "batch_evaluate_names lib block extraction_chain text_chain (name # names) direction
     check_teamwork w =
     (case evaluate_name lib block extraction_chain text_chain name direction check_teamwork w of
        (outcome, w') \<Rightarrow>
          (case batch_evaluate_names lib block extraction_chain text_chain names direction
                  check_teamwork w' of
             (results, w'') \<Rightarrow>
               ((case outcome of
                   Inr result \<Rightarrow> Evaluated result
                 | Inl e \<Rightarrow> error_entry name e) # results,
                w'')))"

section \<open>Command-line tools\<close>

text \<open>
  How a run of \<open>main\<close> ends: \<open>sys.exit(n)\<close>, a return from \<open>main\<close>, or an exception
  nobody catches. The interpreter turns the last two into the exit status 0 and 1.
\<close>

datatype run_end = Exit nat | Returned | Uncaught pyerror

fun exit_status :: "run_end \<Rightarrow> nat" where
  "exit_status (Exit n) = n"
| "exit_status Returned = 0"
| "exit_status (Uncaught e) = 1"

text \<open>
  \<^verbatim>\<open>load_names_from_file\<close>, the same in both tools: the stripped non-blank lines, and
  \<open>sys.exit(1)\<close> when the file cannot be read. The file system is the parameter
  \<open>read_lines\<close>.
\<close>

definition load_names_from_file ::
  "(pystr \<Rightarrow> pyerror + pystr list) \<Rightarrow> pystr \<Rightarrow> run_end + pystr list" where
  "load_names_from_file read_lines file_path =
     (case read_lines file_path of
        Inl e \<Rightarrow> Inl (Exit 1)
      | Inr lines \<Rightarrow> Inr (map strip (filter (\<lambda>line. strip line \<noteq> []) lines)))"

text \<open>
  \<^verbatim>\<open>main\<close> of \<^verbatim>\<open>korean_name_cli.py\<close>. \<open>r.get("compliant", False)\<close> reads the flag of an
  entry. The reports are written between the evaluation and the summary; writing them is
  not part of the model.
  \<^verbatim>\<open>
    results = batch_evaluate_names(names, args.direction)
    ...
    compliant_count = sum(1 for r in results if r.get("compliant", False))
    ...
    # Exit with status code 0 (success) if all names are compliant, otherwise 1
    sys.exit(0 if compliant_count == len(names) else 1)
  \<close>
\<close>

record cli_args =
  arg_show_resources :: bool
  arg_names :: "pystr list option"
  arg_file :: "pystr option"
  arg_direction :: pystr

fun entry_compliant :: "name_evaluation batch_entry \<Rightarrow> bool" where
  "entry_compliant (Evaluated r) = ne_compliant r"
| "entry_compliant (Failed r) = err_compliant r"

definition compliant_count :: "name_evaluation batch_entry list \<Rightarrow> nat" where
  "compliant_count results = length (filter entry_compliant results)"

definition cli_names ::
  "(pystr \<Rightarrow> pyerror + pystr list) \<Rightarrow> pystr list option \<Rightarrow> pystr option
     \<Rightarrow> run_end + pystr list" where
  "cli_names read_lines names file =
     (case names of
        Some (n # ns) \<Rightarrow> Inr (n # ns)
      | _ \<Rightarrow>
          (case file of
             Some (c # cs) \<Rightarrow> load_names_from_file read_lines (c # cs)
           | _ \<Rightarrow> Inl (Exit 1)))"

definition korean_name_cli_main ::
  "pylib \<Rightarrow> 'w teamwork_block \<Rightarrow> (chain_input \<Rightarrow> 'w \<Rightarrow> (pyerror + name_evaluation) \<times> 'w)
     \<Rightarrow> (chain_input \<Rightarrow> 'w \<Rightarrow> (pyerror + pystr) \<times> 'w) \<Rightarrow> (pystr \<Rightarrow> pyerror + pystr list)
     \<Rightarrow> cli_args \<Rightarrow> 'w \<Rightarrow> run_end \<times> 'w" where
  "korean_name_cli_main lib block extraction_chain text_chain read_lines args w =
     (if arg_show_resources args then (Returned, w)
      else (case cli_names read_lines (arg_names args) (arg_file args) of
              Inl ended \<Rightarrow> (ended, w)
            | Inr names \<Rightarrow>
                (case batch_evaluate_names lib block extraction_chain text_chain names
                        (arg_direction args) True w of
                   (results, w') \<Rightarrow>
                     (Exit (if compliant_count results = length names then 0 else 1), w'))))"

text \<open>
  \<^verbatim>\<open>process_names\<close> and \<^verbatim>\<open>main\<close> of \<^verbatim>\<open>name_eval_system.py\<close>. Of \<^verbatim>\<open>process_names\<close> the
  model keeps the routing of the names to the two evaluators and the two result lists; the
  reports, the termbase files, the tracing and the posting to the tracking service, which
  read the lists and do not change them, are left out. After the call \<open>main\<close> prints the
  summary and the function ends: there is no \<open>sys.exit\<close> after the evaluation.
\<close>

definition process_names ::
  "pylib \<Rightarrow> (pystr \<Rightarrow> pyerror + json) \<Rightarrow> 'w teamwork_block \<Rightarrow> 'w llm \<Rightarrow> 'w llm \<Rightarrow> pystr list
     \<Rightarrow> pystr option \<Rightarrow> bool \<Rightarrow> bool \<Rightarrow> 'w
     \<Rightarrow> (pyerror + ko_evaluation list \<times> en_evaluation batch_entry list) \<times> 'w" where
  "process_names lib loads block ko_chain en_chain names direction auto_detect
     verify_in_teamwork w =
     (if auto_detect
      then (case auto_detect_names names of
              Inl e \<Rightarrow> (Inl e, w)
            | Inr (ko, en) \<Rightarrow>
                (case (if ko \<noteq> []
                       then evaluate_korean_names lib loads ko_chain ko verify_in_teamwork w
                       else (Inr [], w)) of
                   (Inl e, w1) \<Rightarrow> (Inl e, w1)
                 | (Inr ko_results, w1) \<Rightarrow>
                     (case (if en \<noteq> []
                            then evaluate_english_names lib block en_chain en verify_in_teamwork w1
                            else ([], w1)) of
                        (en_results, w2) \<Rightarrow> (Inr (ko_results, en_results), w2))))
      else if direction = Some (py ''KO-EN'')
      then (case evaluate_korean_names lib loads ko_chain names verify_in_teamwork w of
              (Inl e, w1) \<Rightarrow> (Inl e, w1)
            | (Inr ko_results, w1) \<Rightarrow> (Inr (ko_results, []), w1))
      else if direction = Some (py ''EN-KO'')
      then (case evaluate_english_names lib block en_chain names verify_in_teamwork w of
              (en_results, w1) \<Rightarrow> (Inr ([], en_results), w1))
      else (Inr ([], []), w))"

record system_args =
  sys_show_resources :: bool
  sys_show_local_resources :: bool
  sys_names :: "pystr list option"
  sys_file :: "pystr option"
  sys_direction :: "pystr option"
  sys_auto_detect :: bool
  sys_local_only :: bool
  sys_verify_in_teamwork :: bool
  sys_no_teamwork :: bool

text \<open>The names given on the command line are split at commas and stripped; empty pieces
  are dropped.\<close>

definition comma_names :: "pystr list \<Rightarrow> pystr list" where
  "comma_names name_args =
     concat (map (\<lambda>name_arg. filter (\<lambda>n. n \<noteq> []) (map strip (split_on 44 name_arg))) name_args)"

definition system_names ::
  "(pystr \<Rightarrow> pyerror + pystr list) \<Rightarrow> pystr list option \<Rightarrow> pystr option
     \<Rightarrow> run_end + pystr list" where
  "system_names read_lines names file =
     (case names of
        Some (n # ns) \<Rightarrow> Inr (comma_names (n # ns))
      | _ \<Rightarrow>
          (case file of
             Some (c # cs) \<Rightarrow> load_names_from_file read_lines (c # cs)
           | _ \<Rightarrow> Inl (Exit 1)))"

definition name_eval_system_main ::
  "pylib \<Rightarrow> (pystr \<Rightarrow> pyerror + json) \<Rightarrow> 'w teamwork_block \<Rightarrow> 'w llm \<Rightarrow> 'w llm
     \<Rightarrow> (pystr \<Rightarrow> pyerror + pystr list) \<Rightarrow> nat \<Rightarrow> system_args \<Rightarrow> 'w \<Rightarrow> run_end \<times> 'w" where
  "name_eval_system_main lib loads block ko_chain en_chain read_lines available_count args w =
     (if sys_show_resources args then (Returned, w)
      else if sys_show_local_resources args then (Returned, w)
      else (case system_names read_lines (sys_names args) (sys_file args) of
              Inl ended \<Rightarrow> (ended, w)
            | Inr names \<Rightarrow>
                if sys_local_only args \<and> available_count = 0 then (Exit 1, w)
                else (case process_names lib loads block ko_chain en_chain names
                             (sys_direction args) (sys_auto_detect args)
                             (sys_verify_in_teamwork args \<and> \<not> sys_no_teamwork args) w of
                        (Inl e, w') \<Rightarrow> (Uncaught e, w')
                      | (Inr results, w') \<Rightarrow> (Returned, w'))))"

section \<open>Example inputs\<close>

text \<open>
  Concrete inputs for running the model. \<open>example_object\<close> is the JSON object of the
  specification's example; \<open>example_response\<close> holds it in a fence tagged \<open>json\<close>, after a
  sentence that itself mentions a score; \<open>broken_response\<close> is no JSON (a Python
  \<open>True\<close> and a trailing comma). \<open>example_loads\<close> stands for \<open>json.loads\<close> on these
  inputs: it parses \<open>example_object\<close> and rejects every other text. \<open>example_chain\<close> is a
  model endpoint that answers for one name and fails for every other; its world counts
  the calls.
\<close>

definition example_object :: pystr where
  "example_object =
     py ''{'' @ quoted ''english_notation'' @ py '':'' @ quoted ''Kim Ji-won'' @ py '',''
       @ quoted ''compliant'' @ py '':true,'' @ quoted ''overall_score'' @ py '':97}''"

definition example_loads :: "pystr \<Rightarrow> pyerror + json" where
  "example_loads t =
     (if t = example_object
      then Inr (JObj [(py ''english_notation'', JStr (py ''Kim Ji-won'')),
                      (py ''compliant'', JBool True),
                      (py ''overall_score'', JInt 97)])
      else Inl JSONDecodeError)"

definition example_response :: pystr where
  "example_response =
     py ''Result: '' @ quoted ''overall_score'' @ py '': 12 '' @ backticks @ py ''json\<newline>''
       @ example_object @ py ''\<newline>'' @ backticks"

definition broken_response :: pystr where
  "broken_response =
     py ''{'' @ quoted ''english_notation'' @ py '': '' @ quoted ''Kim Ji-won'' @ py '', ''
       @ quoted ''compliant'' @ py '': True, '' @ quoted ''overall_score'' @ py '': 250,}''"

definition example_chain :: "nat llm" where
  "example_chain inp w =
     (if prompt_name inp = [0xAE40, 0xC9C0, 0xC6D0]
      then (Inr example_response, w + 1)
      else (Inl ConnectionError, w + 1))"

text \<open>
  For the verification client: an environment with a key, a service that answers every
  request with one status and a body that is no JSON, and a service that lists one project
  and fails with status 500 on the tasks of a project.
\<close>

definition example_environ :: environ where
  "example_environ = \<lparr> TEAMWORK_API_KEY = Some (py ''0123456789''), TEAMWORK_DOMAIN = None \<rparr>"

definition status_service :: "nat \<Rightarrow> nat http" where
  "status_service code url w = (Inr \<lparr> status_code = code, json_body = Inl JSONDecodeError \<rparr>, w + 1)"

definition example_service :: "nat http" where
  "example_service url w =
     (if endswith url (py ''/projects.json?status=active'')
      then (Inr \<lparr> status_code = 200,
                  json_body = Inr (JObj [(py ''projects'',
                    JArr [JObj [(py ''id'', JStr (py ''7'')), (py ''name'', JStr (py ''Names''))]])]) \<rparr>,
            w + 1)
      else if endswith url (py ''/tasks.json'')
      then (Inr \<lparr> status_code = 500, json_body = Inl JSONDecodeError \<rparr>, w + 1)
      else (Inr \<lparr> status_code = 200, json_body = Inr (JObj []) \<rparr>, w + 1))"

text \<open>
  For the batch functions and the command-line tools: a model endpoint that answers with a
  sentence that is no evaluation, a structured chain that always fails validation and a
  text chain that answers for one name only, a file system without files, and the
  arguments \<open>--names\<close> with one Korean name and \<open>--direction KO-EN\<close>.
\<close>

definition refusing_chain :: "nat llm" where
  "refusing_chain inp w = (Inr (py ''I cannot evaluate this name.''), w + 1)"

definition failing_extraction :: "chain_input \<Rightarrow> nat \<Rightarrow> (pyerror + name_evaluation) \<times> nat" where
  "failing_extraction inp w = (Inl ValueError, w + 1)"

definition text_answer :: "chain_input \<Rightarrow> nat \<Rightarrow> (pyerror + pystr) \<times> nat" where
  "text_answer inp w =
     (if input_name inp = [0xAE40, 0xC9C0, 0xC6D0]
      then (Inr (py ''The notation Kim Ji-won is acceptable.''), w + 1)
      else (Inl ConnectionError, w + 1))"

definition no_files :: "pystr \<Rightarrow> pyerror + pystr list" where
  "no_files file_path = Inl OSError"

definition example_args :: system_args where
  "example_args =
     \<lparr> sys_show_resources = False, sys_show_local_resources = False,
       sys_names = Some [[0xAE40, 0xC9C0, 0xC6D0]], sys_file = None,
       sys_direction = Some (py ''KO-EN''), sys_auto_detect = False, sys_local_only = False,
       sys_verify_in_teamwork = False, sys_no_teamwork = False \<rparr>"

section \<open>Unfolding the model on concrete inputs\<close>

text \<open>The definitions a concrete evaluation unfolds, by group.\<close>

lemmas str_defs = py_def whitespace_def strip_def split_def endswith_def rstrip_char_def
  after_colon_def quoted_def
lemmas ascii_defs = ascii_lib_def ascii_lower_def ascii_digit_def isdigit_def py_int_def
lemmas ko_defs = extract_evaluation_def default_evaluation_def parse_object_def json_text_def
  match_fence_def backticks_def update_from_json_def regex_fallback_def
  match_english_notation_def match_compliant_def match_overall_score_def dict_get_def
lemmas example_defs = example_object_def example_loads_def example_response_def
  broken_response_def example_chain_def

section \<open>Properties of the language direction detector\<close>

lemma detect_language_nonempty:
  assumes "name \<noteq> []"
  shows "detect_language name =
           Inr (if 5 * korean_chars name > length name then ''ko'' else ''en'')"
proof -
  have pos: "(0::rat) < of_nat (length name)"
    using assms by simp
  have "(of_nat (korean_chars name) / of_nat (length name) > (2 / 10 :: rat))
          \<longleftrightarrow> (of_nat (length name) :: rat) < of_nat (5 * korean_chars name)"
    using pos by (simp add: field_simps)
  also have "\<dots> \<longleftrightarrow> length name < 5 * korean_chars name"
    by (rule of_nat_less_iff)
  finally show ?thesis
    using assms by (simp add: detect_language_def truediv_def)
qed

lemma korean_chars_all:
  "list_all hangul_syllable name \<Longrightarrow> korean_chars name = length name"
  by (simp add: korean_chars_def list_all_iff)

lemma ascii_letter_not_hangul: "ascii_letter c \<Longrightarrow> \<not> hangul_syllable c"
  by (auto simp: ascii_letter_def hangul_syllable_def)

lemma korean_chars_none:
  "list_all ascii_letter name \<Longrightarrow> korean_chars name = 0"
  by (induction name) (simp_all add: korean_chars_def ascii_letter_not_hangul)

text \<open>
  C1. On the empty string the detector is meant not to raise an uncaught division error.
  The code has no guard for length 0: the division raises ZeroDivisionError, and the
  caller \<^verbatim>\<open>auto_detect_names\<close> lets it pass.
\<close>

theorem detect_language_empty_raises:
  "detect_language [] = Inl ZeroDivisionError
     \<and> auto_detect_names [[]] = Inl ZeroDivisionError"
  by (simp add: detect_language_def truediv_def korean_chars_def)

text \<open>
  C6. A non-empty name of Hangul syllables only is classified Korean, a non-empty name of
  ASCII letters only is classified English, and a non-empty name is classified Korean
  exactly when more than 20 percent of its characters are Hangul syllables.
\<close>

theorem detect_language_threshold:
  assumes "name \<noteq> []"
  shows "(list_all hangul_syllable name \<longrightarrow> detect_language name = Inr ''ko'')
       \<and> (list_all ascii_letter name \<longrightarrow> detect_language name = Inr ''en'')
       \<and> (detect_language name = Inr ''ko'' \<or> detect_language name = Inr ''en'')
       \<and> ((detect_language name = Inr ''ko'') =
            (100 * korean_chars name > 20 * length name))"
proof -
  have d: "detect_language name =
             Inr (if 5 * korean_chars name > length name then ''ko'' else ''en'')"
    using assms by (rule detect_language_nonempty)
  have n: "0 < length name"
    using assms by simp
  have "list_all hangul_syllable name \<longrightarrow> detect_language name = Inr ''ko''"
    using d n by (simp add: korean_chars_all)
  moreover have "list_all ascii_letter name \<longrightarrow> detect_language name = Inr ''en''"
    using d by (simp add: korean_chars_none)
  moreover have "detect_language name = Inr ''ko'' \<or> detect_language name = Inr ''en''"
    using d by simp
  moreover have "(detect_language name = Inr ''ko'') =
                   (100 * korean_chars name > 20 * length name)"
    using d by auto
  ultimately show ?thesis
    by simp
qed

text \<open>
  The theorem at three names: three Hangul syllables (U+AE40 U+C9C0 U+C6D0), the ASCII
  letters \<open>John\<close>, and \<open>Kim\<close>, a space and one syllable, where one character in five is
  Hangul, which is not more than 20 percent.
\<close>

theorem detect_language_threshold_witness:
  "[0xAE40, 0xC9C0, 0xC6D0] \<noteq> ([] :: pystr)
     \<and> list_all hangul_syllable [0xAE40, 0xC9C0, 0xC6D0]
     \<and> detect_language [0xAE40, 0xC9C0, 0xC6D0] = Inr ''ko''
     \<and> py ''John'' \<noteq> []
     \<and> list_all ascii_letter (py ''John'')
     \<and> detect_language (py ''John'') = Inr ''en''
     \<and> py ''Kim '' @ [0xAE40] \<noteq> []
     \<and> korean_chars (py ''Kim '' @ [0xAE40]) = 1
     \<and> length (py ''Kim '' @ [0xAE40]) = 5
     \<and> detect_language (py ''Kim '' @ [0xAE40]) = Inr ''en''"
proof -
  have k: "[0xAE40, 0xC9C0, 0xC6D0] \<noteq> ([] :: pystr)"
    by simp
  have e: "py ''John'' \<noteq> []"
    by (simp add: py_def)
  have m: "py ''Kim '' @ [0xAE40] \<noteq> []"
    by simp
  have hk: "list_all hangul_syllable [0xAE40, 0xC9C0, 0xC6D0]"
    by (simp add: hangul_syllable_def)
  have he: "list_all ascii_letter (py ''John'')"
    by (simp add: ascii_letter_def py_def)
  have hm: "korean_chars (py ''Kim '' @ [0xAE40]) = 1" "length (py ''Kim '' @ [0xAE40]) = 5"
    by (simp_all add: korean_chars_def py_def hangul_syllable_def)
  have r1: "detect_language [0xAE40, 0xC9C0, 0xC6D0] = Inr ''ko''"
    using detect_language_threshold [OF k] hk by simp
  have r2: "detect_language (py ''John'') = Inr ''en''"
    using detect_language_threshold [OF e] he by simp
  have r3: "detect_language (py ''Kim '' @ [0xAE40]) = Inr ''en''"
    using detect_language_threshold [OF m] hm by auto
  show ?thesis
    using k e m hk he hm r1 r2 r3 by simp
qed

section \<open>Properties of the free-text extraction\<close>

lemma notation_step_score [simp]:
  "compliance_score (notation_step line rest st) = compliance_score st"
  "compliant (notation_step line rest st) = compliant st"
  by (simp_all add: notation_step_def split: list.splits)

lemma verification_step_score [simp]:
  "compliance_score (verification_step lib line rest st) = compliance_score st"
  "compliant (verification_step lib line rest st) = compliant st"
  by (simp_all add: verification_step_def)

lemma recommendations_step_score [simp]:
  "compliance_score (recommendations_step lib line rest st) = compliance_score st"
  "compliant (recommendations_step lib line rest st) = compliant st"
  by (simp_all add: recommendations_step_def)

lemma sources_step_score [simp]:
  "compliance_score (sources_step lib line rest st) = compliance_score st"
  "compliant (sources_step lib line rest st) = compliant st"
  by (simp_all add: sources_step_def)

lemma scan_line_score:
  "compliance_score (scan_line lib raw rest st) =
     (case line_score lib (strip raw) of None \<Rightarrow> compliance_score st | Some n \<Rightarrow> n)"
  "compliant (scan_line lib raw rest st) =
     (case line_score lib (strip raw) of None \<Rightarrow> compliant st | Some n \<Rightarrow> n \<ge> 80)"
  by (simp_all add: scan_line_def score_step_def Let_def split: option.splits)

lemma scan_lines_score:
  "compliance_score (scan_lines lib ls st) =
     (case List.map_filter (\<lambda>raw. line_score lib (strip raw)) ls of
        [] \<Rightarrow> compliance_score st
      | s # ss \<Rightarrow> last (s # ss))"
proof (induction ls arbitrary: st)
  case Nil
  then show ?case by (simp add: List.map_filter_simps)
next
  case (Cons raw rest)
  show ?case
    by (simp add: Cons.IH scan_line_score List.map_filter_simps split: option.splits list.splits)
qed

lemma scan_lines_compliant:
  "compliant st = (compliance_score st \<ge> 80) \<Longrightarrow>
   compliant (scan_lines lib ls st) = (compliance_score (scan_lines lib ls st) \<ge> 80)"
proof (induction ls arbitrary: st)
  case Nil
  then show ?case by simp
next
  case (Cons raw rest)
  have "compliant (scan_line lib raw rest st) = (compliance_score (scan_line lib raw rest st) \<ge> 80)"
    using Cons.prems by (simp add: scan_line_score split: option.splits)
  then show ?case
    by (simp add: Cons.IH)
qed

lemma py_int_nonneg: "py_int lib s = Inr n \<Longrightarrow> 0 \<le> n"
  by (auto simp: py_int_def split: if_splits)

lemma first_score_nonneg: "first_score lib ws = Some n \<Longrightarrow> 0 \<le> n"
  by (induction ws) (auto split: if_splits sum.splits dest: py_int_nonneg)

lemma line_score_nonneg: "line_score lib l = Some n \<Longrightarrow> 0 \<le> n"
  by (auto simp: line_score_def split: if_splits dest: first_score_nonneg)

lemma scan_lines_nonneg:
  "0 \<le> compliance_score st \<Longrightarrow> 0 \<le> compliance_score (scan_lines lib ls st)"
proof (induction ls arbitrary: st)
  case Nil
  then show ?case by simp
next
  case (Cons raw rest)
  have "0 \<le> compliance_score (scan_line lib raw rest st)"
    using Cons.prems by (auto simp: scan_line_score split: option.splits dest: line_score_nonneg)
  then show ?case
    by (simp add: Cons.IH)
qed

lemma first_score_tokens:
  "first_score lib words =
     (case List.map_filter (score_token lib) words of [] \<Rightarrow> None | n # ns \<Rightarrow> Some n)"
  by (induction words)
     (auto simp: score_token_def List.map_filter_simps split: sum.splits)

lemma line_score_tokens:
  "line_score lib line =
     (if (contains (py ''compliance'') (str_lower lib line)
          \<or> contains (py ''score'') (str_lower lib line))
         \<and> list_ex (isdigit_char lib) line
      then (case List.map_filter (score_token lib) (split line) of
              [] \<Rightarrow> None
            | n # ns \<Rightarrow> Some n)
      else None)"
  by (simp add: line_score_def first_score_tokens)

lemma parse_evaluation_score:
  "en_overall_score (parse_evaluation lib name tv result) =
     (case line_scores lib result of [] \<Rightarrow> 0 | s # ss \<Rightarrow> last (s # ss))"
  by (simp add: parse_evaluation_def Let_def scan_lines_score line_scores_def initial_scan_def split: list.splits)

lemma parse_evaluation_compliant:
  "en_compliant (parse_evaluation lib name tv result) =
     (en_overall_score (parse_evaluation lib name tv result) \<ge> 80)"
  by (simp add: parse_evaluation_def Let_def scan_lines_compliant initial_scan_def)

lemma parse_evaluation_nonneg:
  "0 \<le> en_overall_score (parse_evaluation lib name tv result)"
  by (simp add: parse_evaluation_def Let_def scan_lines_nonneg initial_scan_def)

section \<open>Properties of the JSON extraction\<close>

lemma regex_fallback_score:
  assumes "ko_overall_score ev = JInt 0"
  shows "\<exists>n. 0 \<le> n \<and> ko_overall_score (regex_fallback lib r ev) = JInt n"
  using assms
  by (auto simp: regex_fallback_def Let_def split: option.splits sum.splits dest: py_int_nonneg)

lemma regex_fallback_no_match:
  assumes "re_search (match_overall_score lib) r = None"
  shows "ko_overall_score (regex_fallback lib r ev) = ko_overall_score ev"
  using assms by (simp add: regex_fallback_def Let_def split: option.splits)














lemma regex_fallback_teamwork:
  "ko_teamwork_verification (regex_fallback lib r ev) = ko_teamwork_verification ev"
  by (simp add: regex_fallback_def Let_def split: option.splits sum.splits)

lemma extract_evaluation_teamwork:
  "ko_teamwork_verification (extract_evaluation lib loads name tr response_text) = tr"
  by (simp add: extract_evaluation_def Let_def regex_fallback_teamwork update_from_json_def
      default_evaluation_def split: sum.splits)

lemma teamwork_context_bool:
  "teamwork_context lib (JBool b) = Inr (py ''No previous translations found in Teamwork.'')"
  by (simp add: teamwork_context_def)

lemma name_evaluator_bool:
  "name_evaluator lib loads chain name (JBool b) w =
     (case chain \<lparr>prompt_name = name,
                   prompt_teamwork_context = py ''No previous translations found in Teamwork.''\<rparr> w of
        (Inl e, w') \<Rightarrow> (Inl e, w')
      | (Inr response_text, w') \<Rightarrow>
          (Inr (extract_evaluation lib loads name (JBool b) response_text), w'))"
  by (simp add: name_evaluator_def teamwork_context_bool)

lemma evaluate_korean_names_context:
  "evaluate_korean_names lib loads chain names b w =
     evaluate_korean_names lib loads
       (\<lambda>inp. chain (inp\<lparr>prompt_teamwork_context :=
                             py ''No previous translations found in Teamwork.''\<rparr>))
       names b w"
proof (induction names arbitrary: w)
  case Nil
  show ?case by simp
next
  case (Cons name names)
  show ?case
    by (simp add: name_evaluator_bool Cons.IH [symmetric] split: prod.splits sum.splits)
qed

lemma evaluate_korean_names_flag:
  "evaluate_korean_names lib loads chain names b w = (Inr results, w') \<Longrightarrow>
   list_all (\<lambda>r. ko_teamwork_verification r = JBool b) results"
proof (induction names arbitrary: w results)
  case Nil
  then show ?case by simp
next
  case (Cons name names)
  then show ?case
    by (auto simp: name_evaluator_bool extract_evaluation_teamwork
        split: prod.splits sum.splits)
qed

lemma evaluate_korean_names_length:
  "evaluate_korean_names lib loads chain names b w = (Inr results, w') \<Longrightarrow>
   length results = length names"
proof (induction names arbitrary: w results)
  case Nil
  then show ?case by simp
next
  case (Cons name names)
  then show ?case
    by (auto split: prod.splits sum.splits)
qed

lemma example_json_text: "json_text example_response = example_object"
  by (simp add: example_defs ko_defs str_defs)

lemma example_parse_object:
  "parse_object example_loads example_response =
     Inr [(py ''english_notation'', JStr (py ''Kim Ji-won'')),
          (py ''compliant'', JBool True), (py ''overall_score'', JInt 97)]"
  by (simp add: parse_object_def example_json_text example_loads_def)

lemma broken_parse_object:
  "parse_object example_loads broken_response = Inl JSONDecodeError"
  by (simp add: example_defs ko_defs str_defs)

lemma broken_fallback_score:
  "ko_overall_score (extract_evaluation ascii_lib example_loads n tr broken_response) = JInt 250"
  by (simp add: extract_evaluation_def broken_parse_object)
     (simp add: example_defs ko_defs str_defs ascii_defs)

section \<open>Claims about the extracted score\<close>

text \<open>
  C4, as stated, at a concrete input. A response holds the line \<open>Compliance score: 92\<close>
  and, after it, a second line that mentions a score: the loop over the lines does not stop
  at the first score, the second line overwrites it, and the result is 10 and not
  compliant.
\<close>

theorem later_line_overrides_score:
  "py ''Compliance score: 92'' \<in> set (split_on 10 (py ''Compliance score: 92\<newline>Rule score: 10''))
   \<and> en_overall_score
         (parse_evaluation ascii_lib (py ''John Smith'') JNull
            (py ''Compliance score: 92\<newline>Rule score: 10'')) = 10
   \<and> \<not> en_compliant
         (parse_evaluation ascii_lib (py ''John Smith'') JNull
            (py ''Compliance score: 92\<newline>Rule score: 10''))"
proof -
  have "line_scores ascii_lib (py ''Compliance score: 92\<newline>Rule score: 10'') = [92, 10]"
    by (simp add: line_scores_def line_score_def str_defs ascii_defs List.map_filter_simps)
  then show ?thesis
    by (simp add: parse_evaluation_compliant parse_evaluation_score) (simp add: py_def)
qed

text \<open>
  C4, amended. The score of the result is the score of the last line that gives one (0
  when no line does), where a line gives a score when, stripped, it contains
  \<open>compliance\<close> or \<open>score\<close> in lower case and a digit, and the score is the value of its
  first whitespace-delimited word that is all digits, or all digits followed by one \<open>%\<close>,
  and that \<open>int\<close> converts; \<open>compliant\<close> is \<open>score \<ge> 80\<close>. A response that is the one
  line \<open>Compliance score: 92\<close> gives 92 and compliant; the one line \<open>Compliance: 45%\<close>
  gives 45 and not compliant.
\<close>

theorem score_of_last_scoring_line:
  "en_overall_score (parse_evaluation lib name tv result) =
     (case line_scores lib result of [] \<Rightarrow> 0 | s # ss \<Rightarrow> last (s # ss))
   \<and> line_score lib line =
       (if (contains (py ''compliance'') (str_lower lib line)
            \<or> contains (py ''score'') (str_lower lib line))
           \<and> list_ex (isdigit_char lib) line
        then (case List.map_filter (score_token lib) (split line) of
                [] \<Rightarrow> None
              | n # ns \<Rightarrow> Some n)
        else None)
   \<and> en_compliant (parse_evaluation lib name tv result) =
       (en_overall_score (parse_evaluation lib name tv result) \<ge> 80)
   \<and> en_overall_score (parse_evaluation ascii_lib name tv (py ''Compliance score: 92'')) = 92
   \<and> en_compliant (parse_evaluation ascii_lib name tv (py ''Compliance score: 92''))
   \<and> en_overall_score (parse_evaluation ascii_lib name tv (py ''Compliance: 45%'')) = 45
   \<and> \<not> en_compliant (parse_evaluation ascii_lib name tv (py ''Compliance: 45%''))"
proof -
  have a: "line_scores ascii_lib (py ''Compliance score: 92'') = [92]"
    by (simp add: line_scores_def line_score_def str_defs ascii_defs List.map_filter_simps)
  have b: "line_scores ascii_lib (py ''Compliance: 45%'') = [45]"
    by (simp add: line_scores_def line_score_def str_defs ascii_defs List.map_filter_simps)
  show ?thesis
    using line_score_tokens [of lib line]
    by (simp add: parse_evaluation_compliant parse_evaluation_score a b)
qed

text \<open>
  C2, as stated, at concrete inputs. Nothing caps the score at 100: the line scan returns
  150 for \<open>Compliance score: 150\<close>, and the regular-expression fallback returns 250 for a
  response that is no JSON and holds \<open>"overall_score": 250\<close>.
\<close>

theorem overall_score_not_capped:
  "en_overall_score
     (parse_evaluation ascii_lib (py ''John Smith'') JNull (py ''Compliance score: 150'')) = 150
   \<and> \<not> en_overall_score
         (parse_evaluation ascii_lib (py ''John Smith'') JNull (py ''Compliance score: 150''))
       \<le> 100
   \<and> ko_overall_score
       (extract_evaluation ascii_lib example_loads [0xAE40, 0xC9C0, 0xC6D0] JNull broken_response)
     = JInt 250"
proof -
  have "line_scores ascii_lib (py ''Compliance score: 150'') = [150]"
    by (simp add: line_scores_def line_score_def str_defs ascii_defs List.map_filter_simps)
  then show ?thesis
    by (simp add: parse_evaluation_score broken_fallback_score)
qed

text \<open>
  C2, amended. The score is not capped, and what holds on each path is this. The line scan
  gives an integer that is never negative, and 0 when no line gives a score. When parsing
  the JSON fails, the fallback gives an integer that is never negative, and 0 when its
  pattern for the score finds nothing. When the JSON parses to an object, the score is the
  value under the key \<open>overall_score\<close> as parsed, whatever it is, and 0 when the key is
  absent.
\<close>

theorem overall_score_default_and_sign:
  "0 \<le> en_overall_score (parse_evaluation lib name tv result)
   \<and> (line_scores lib result = [] \<longrightarrow>
        en_overall_score (parse_evaluation lib name tv result) = 0)
   \<and> (parse_object loads response_text = Inl e \<longrightarrow>
        (\<exists>n. 0 \<le> n
           \<and> ko_overall_score (extract_evaluation lib loads name tr response_text) = JInt n))
   \<and> (parse_object loads response_text = Inl e
        \<and> re_search (match_overall_score lib) response_text = None \<longrightarrow>
        ko_overall_score (extract_evaluation lib loads name tr response_text) = JInt 0)
   \<and> (parse_object loads response_text = Inr data \<longrightarrow>
        ko_overall_score (extract_evaluation lib loads name tr response_text) =
          dict_get data (py ''overall_score'') (JInt 0))"
proof (intro conjI impI)
  show "0 \<le> en_overall_score (parse_evaluation lib name tv result)"
    by (rule parse_evaluation_nonneg)
next
  assume "line_scores lib result = []"
  then show "en_overall_score (parse_evaluation lib name tv result) = 0"
    by (simp add: parse_evaluation_score)
next
  assume "parse_object loads response_text = Inl e"
  then show "\<exists>n. 0 \<le> n
      \<and> ko_overall_score (extract_evaluation lib loads name tr response_text) = JInt n"
    by (simp add: extract_evaluation_def regex_fallback_score default_evaluation_def)
next
  assume "parse_object loads response_text = Inl e
      \<and> re_search (match_overall_score lib) response_text = None"
  then show "ko_overall_score (extract_evaluation lib loads name tr response_text) = JInt 0"
    by (simp add: extract_evaluation_def regex_fallback_no_match default_evaluation_def)
next
  assume "parse_object loads response_text = Inr data"
  then show "ko_overall_score (extract_evaluation lib loads name tr response_text) =
      dict_get data (py ''overall_score'') (JInt 0)"
    by (simp add: extract_evaluation_def update_from_json_def)
qed

theorem overall_score_default_and_sign_witness:
  "line_scores ascii_lib (py ''No rating was given.'') = []
   \<and> en_overall_score
       (parse_evaluation ascii_lib (py ''John Smith'') JNull (py ''No rating was given.'')) = 0
   \<and> parse_object example_loads (py ''No rating was given.'') = Inl JSONDecodeError
   \<and> re_search (match_overall_score ascii_lib) (py ''No rating was given.'') = None
   \<and> ko_overall_score
       (extract_evaluation ascii_lib example_loads (py ''John Smith'') JNull
          (py ''No rating was given.'')) = JInt 0
   \<and> parse_object example_loads example_response =
       Inr [(py ''english_notation'', JStr (py ''Kim Ji-won'')),
            (py ''compliant'', JBool True), (py ''overall_score'', JInt 97)]
   \<and> ko_overall_score
       (extract_evaluation ascii_lib example_loads [0xAE40, 0xC9C0, 0xC6D0] JNull
          example_response) = JInt 97"
proof -
  have h1: "line_scores ascii_lib (py ''No rating was given.'') = []"
    by (simp add: line_scores_def line_score_def str_defs ascii_defs List.map_filter_simps)
  have h2: "parse_object example_loads (py ''No rating was given.'') = Inl JSONDecodeError"
    by (simp add: example_defs ko_defs str_defs)
  have h3: "re_search (match_overall_score ascii_lib) (py ''No rating was given.'') = None"
    by (simp add: ko_defs str_defs)
  note h4 = example_parse_object
  have v: "dict_get [(py ''english_notation'', JStr (py ''Kim Ji-won'')),
            (py ''compliant'', JBool True), (py ''overall_score'', JInt 97)]
            (py ''overall_score'') (JInt 0) = JInt 97"
    by (simp add: dict_get_def py_def)
  show ?thesis
    using overall_score_default_and_sign
            [where lib = ascii_lib and name = "py ''John Smith''" and tv = JNull
               and result = "py ''No rating was given.''" and loads = example_loads
               and response_text = "py ''No rating was given.''" and e = JSONDecodeError
               and tr = JNull]
          overall_score_default_and_sign
            [where lib = ascii_lib and name = "[0xAE40, 0xC9C0, 0xC6D0]" and tv = JNull
               and result = "py ''No rating was given.''" and loads = example_loads
               and response_text = example_response and tr = JNull]
          h1 h2 h3 h4 v
    by simp
qed

section \<open>Claims about the Korean to English evaluator\<close>






text \<open>
  C10. \<^verbatim>\<open>evaluate_korean_names\<close> passes the boolean \<open>check_teamwork\<close> where the evaluator
  expects the Teamwork results. A boolean is no dictionary, so the context of the prompt
  is the sentence \<open>No previous translations found in Teamwork.\<close>: the model endpoint is
  only ever called with that context. Every record returned holds the boolean itself in
  \<open>teamwork_verification\<close>, and there is one record for each name.
\<close>

theorem flag_in_place_of_teamwork_results:
  "teamwork_context lib (JBool check_teamwork) =
     Inr (py ''No previous translations found in Teamwork.'')
   \<and> evaluate_korean_names lib loads chain names check_teamwork w =
       evaluate_korean_names lib loads
         (\<lambda>inp. chain (inp\<lparr>prompt_teamwork_context :=
                               py ''No previous translations found in Teamwork.''\<rparr>))
         names check_teamwork w
   \<and> (evaluate_korean_names lib loads chain names check_teamwork w = (Inr results, w') \<longrightarrow>
        length results = length names
        \<and> list_all (\<lambda>r. ko_teamwork_verification r = JBool check_teamwork) results)"
  using evaluate_korean_names_context [of lib loads chain names check_teamwork w]
    evaluate_korean_names_flag [of lib loads chain names check_teamwork w results w']
    evaluate_korean_names_length [of lib loads chain names check_teamwork w results w']
  by (simp add: teamwork_context_bool)

theorem flag_in_place_of_teamwork_results_witness:
  "evaluate_korean_names ascii_lib example_loads example_chain [[0xAE40, 0xC9C0, 0xC6D0]] True 0 =
     (Inr [extract_evaluation ascii_lib example_loads [0xAE40, 0xC9C0, 0xC6D0] (JBool True)
             example_response], 1)
   \<and> ko_teamwork_verification
       (extract_evaluation ascii_lib example_loads [0xAE40, 0xC9C0, 0xC6D0] (JBool True)
          example_response) = JBool True"
proof -
  have "evaluate_korean_names ascii_lib example_loads example_chain
          [[0xAE40, 0xC9C0, 0xC6D0]] True 0 =
     (Inr [extract_evaluation ascii_lib example_loads [0xAE40, 0xC9C0, 0xC6D0] (JBool True)
             example_response], 1)"
    by (simp add: name_evaluator_bool example_chain_def)
  then show ?thesis
    using flag_in_place_of_teamwork_results
            [where lib = ascii_lib and loads = example_loads and chain = example_chain
               and names = "[[0xAE40, 0xC9C0, 0xC6D0]]" and check_teamwork = True and w = 0
               and w' = 1
               and results = "[extract_evaluation ascii_lib example_loads
                                 [0xAE40, 0xC9C0, 0xC6D0] (JBool True) example_response]"]
    by simp
qed

section \<open>Properties of the external verification client\<close>

lemmas service_defs = example_environ_def status_service_def example_service_def
lemmas client_defs = get_listing_def get_projects_def get_tasks_by_project_def raise_for_status_def
  search_tasks_def project_tasks_def TeamworkClient_def search_name_in_teamwork_def
  get_previous_evaluations_def verification_body_def verify_name_in_teamwork_def

lemma get_listing_error_status:
  assumes "http url w = (Inr r, w')" and "400 \<le> status_code r" and "status_code r < 600"
  shows "get_listing http url key w = (Inl (HTTPError (status_code r)), w')"
  using assms by (simp add: get_listing_def raise_for_status_def)

lemma verify_never_raises:
  "fst (verify_name_in_teamwork env lib http name w) \<noteq> Inl e"
  by (simp add: verify_name_in_teamwork_def split: prod.splits sum.splits)

lemma verify_error_record:
  assumes "http (py ''https://cultureflipper.teamwork.com/projects.json'') w = (direct_check, w1)"
    and "verification_body env lib http name w1 = (Inl e, w2)"
  shows "verify_name_in_teamwork env lib http name w =
           (Inr \<lparr> v_name = name, found_in_teamwork = False, previous_translations = None,
                  previous_evaluations = None, v_error = Some e,
                  verification_status = py ''Error - could not verify'' \<rparr>, w2)"
  using assms by (simp add: verify_name_in_teamwork_def)

lemma search_tasks_listing_error:
  assumes "get_projects http base_url (py ''active'') w = (Inl e, w')"
  shows "search_tasks lib http base_url query w = (Inl e, w')"
  using assms by (simp add: search_tasks_def)

lemma verification_body_listing_error:
  assumes "TeamworkClient env = Inr base_url"
    and "get_projects http base_url (py ''active'') w = (Inl e, w')"
  shows "verification_body env lib http name w = (Inl e, w')"
  using assms
  by (simp add: verification_body_def search_name_in_teamwork_def search_tasks_listing_error)

lemma verify_listing_error:
  assumes "http (py ''https://cultureflipper.teamwork.com/projects.json'') w = (direct_check, w1)"
    and "TeamworkClient env = Inr base_url"
    and "http (base_url @ py ''/projects.json?status=active'') w1 = (Inr r, w2)"
    and "400 \<le> status_code r" and "status_code r < 600"
  shows "verify_name_in_teamwork env lib http name w =
           (Inr \<lparr> v_name = name, found_in_teamwork = False, previous_translations = None,
                  previous_evaluations = None, v_error = Some (HTTPError (status_code r)),
                  verification_status = py ''Error - could not verify'' \<rparr>, w2)"
proof -
  have u: "py ''/projects.json?status='' @ py ''active'' = py ''/projects.json?status=active''"
    by (simp add: py_def)
  have "get_projects http base_url (py ''active'') w1 = (Inl (HTTPError (status_code r)), w2)"
    using assms(3-5) by (simp add: get_projects_def get_listing_error_status u)
  then have "verification_body env lib http name w1 = (Inl (HTTPError (status_code r)), w2)"
    using assms(2) by (rule verification_body_listing_error [rotated])
  then show ?thesis
    using assms(1) by (rule verify_error_record [rotated])
qed

lemma search_projects_skips:
  assumes "project_tasks lib http base_url query p w = (Inl e, w')"
  shows "search_projects lib http base_url query (JObj p # ps) w =
           search_projects lib http base_url query ps w'"
  using assms by (simp split: prod.splits sum.splits)

text \<open>
  C7, as stated, at concrete inputs. A response with status 304 is not a 2xx response, and
  \<^verbatim>\<open>get_projects\<close> does not raise on it: \<open>raise_for_status\<close> returns and the method
  returns \<open>None\<close>. And not every error ends in the error record: the listing of a
  project's tasks raises on status 500, \<^verbatim>\<open>search_tasks\<close> catches that and skips the
  project, and \<^verbatim>\<open>verify_name_in_teamwork\<close> reports \<open>Not found in Teamwork records\<close>
  with no error.
\<close>

theorem status_not_raised_and_error_swallowed:
  "get_projects (status_service 304) (py ''https://cultureflipper.teamwork.com'') (py ''active'') 0
     = (Inr JNull, 1)
   \<and> get_tasks_by_project ascii_lib example_service (py ''https://cultureflipper.teamwork.com'')
       (JStr (py ''7'')) 0 = (Inl (HTTPError 500), 1)
   \<and> verify_name_in_teamwork example_environ ascii_lib example_service [0xAE40, 0xC9C0, 0xC6D0] 0
     = (Inr \<lparr> v_name = [0xAE40, 0xC9C0, 0xC6D0], found_in_teamwork = False,
               previous_translations = Some [], previous_evaluations = Some [],
               v_error = None,
               verification_status = py ''Not found in Teamwork records'' \<rparr>, 5)"
proof -
  have a: "get_projects (status_service 304) (py ''https://cultureflipper.teamwork.com'')
             (py ''active'') 0 = (Inr JNull, 1)"
    by (simp add: client_defs service_defs)
  have b: "get_tasks_by_project ascii_lib example_service
             (py ''https://cultureflipper.teamwork.com'') (JStr (py ''7'')) 0
           = (Inl (HTTPError 500), 1)"
    by (simp add: client_defs service_defs ascii_lib_def py_def endswith_def)
  have s: "search_name_in_teamwork example_environ ascii_lib example_service
             [0xAE40, 0xC9C0, 0xC6D0] w = (Inr [], w + 2)" for w
    by (simp add: client_defs service_defs ascii_lib_def py_def endswith_def dict_get_def)
  have c: "verify_name_in_teamwork example_environ ascii_lib example_service
             [0xAE40, 0xC9C0, 0xC6D0] 0
     = (Inr \<lparr> v_name = [0xAE40, 0xC9C0, 0xC6D0], found_in_teamwork = False,
               previous_translations = Some [], previous_evaluations = Some [],
               v_error = None,
               verification_status = py ''Not found in Teamwork records'' \<rparr>, 5)"
    by (simp add: verify_name_in_teamwork_def verification_body_def get_previous_evaluations_def s)
       (simp add: example_service_def py_def endswith_def)
  show ?thesis
    using a b c by simp
qed

text \<open>
  C7, amended. A response with a status from 400 to 599 makes the listing methods raise
  HTTPError. \<^verbatim>\<open>verify_name_in_teamwork\<close> never raises. When one of its two searches
  raises, as it does when the listing of the projects is answered with such a status, it
  returns the record with \<open>found_in_teamwork\<close> false, the status
  \<open>Error - could not verify\<close> and the exception, and makes no further request. An
  exception while the tasks of one project are read is caught inside \<^verbatim>\<open>search_tasks\<close>:
  the project is skipped and the search goes on with the next one.
\<close>

theorem client_error_handling:
  "(http (base_url @ py ''/projects.json?status='' @ status) w = (Inr r, w')
      \<and> 400 \<le> status_code r \<and> status_code r < 600 \<longrightarrow>
      get_projects http base_url status w = (Inl (HTTPError (status_code r)), w'))
   \<and> (http (base_url @ py ''/projects/'' @ format_value lib project_id @ py ''/tasks.json'') w
        = (Inr r, w')
      \<and> 400 \<le> status_code r \<and> status_code r < 600 \<longrightarrow>
      get_tasks_by_project lib http base_url project_id w = (Inl (HTTPError (status_code r)), w'))
   \<and> fst (verify_name_in_teamwork env lib http name w) \<noteq> Inl e
   \<and> (http (py ''https://cultureflipper.teamwork.com/projects.json'') w = (direct_check, w1)
      \<and> verification_body env lib http name w1 = (Inl e, w2) \<longrightarrow>
      verify_name_in_teamwork env lib http name w =
        (Inr \<lparr> v_name = name, found_in_teamwork = False, previous_translations = None,
               previous_evaluations = None, v_error = Some e,
               verification_status = py ''Error - could not verify'' \<rparr>, w2))
   \<and> (http (py ''https://cultureflipper.teamwork.com/projects.json'') w = (direct_check, w1)
      \<and> TeamworkClient env = Inr base_url
      \<and> http (base_url @ py ''/projects.json?status=active'') w1 = (Inr r, w2)
      \<and> 400 \<le> status_code r \<and> status_code r < 600 \<longrightarrow>
      verify_name_in_teamwork env lib http name w =
        (Inr \<lparr> v_name = name, found_in_teamwork = False, previous_translations = None,
               previous_evaluations = None, v_error = Some (HTTPError (status_code r)),
               verification_status = py ''Error - could not verify'' \<rparr>, w2))
   \<and> (project_tasks lib http base_url query p w = (Inl e, w') \<longrightarrow>
      search_projects lib http base_url query (JObj p # ps) w =
        search_projects lib http base_url query ps w')"
proof (intro conjI impI)
  assume "http (base_url @ py ''/projects.json?status='' @ status) w = (Inr r, w')
      \<and> 400 \<le> status_code r \<and> status_code r < 600"
  then show "get_projects http base_url status w = (Inl (HTTPError (status_code r)), w')"
    by (simp add: get_projects_def get_listing_error_status)
next
  assume "http (base_url @ py ''/projects/'' @ format_value lib project_id @ py ''/tasks.json'') w
        = (Inr r, w')
      \<and> 400 \<le> status_code r \<and> status_code r < 600"
  then show "get_tasks_by_project lib http base_url project_id w =
      (Inl (HTTPError (status_code r)), w')"
    by (simp add: get_tasks_by_project_def get_listing_error_status)
next
  show "fst (verify_name_in_teamwork env lib http name w) \<noteq> Inl e"
    by (rule verify_never_raises)
next
  assume "http (py ''https://cultureflipper.teamwork.com/projects.json'') w = (direct_check, w1)
      \<and> verification_body env lib http name w1 = (Inl e, w2)"
  then show "verify_name_in_teamwork env lib http name w =
        (Inr \<lparr> v_name = name, found_in_teamwork = False, previous_translations = None,
               previous_evaluations = None, v_error = Some e,
               verification_status = py ''Error - could not verify'' \<rparr>, w2)"
    by (simp add: verify_error_record)
next
  assume "http (py ''https://cultureflipper.teamwork.com/projects.json'') w = (direct_check, w1)
      \<and> TeamworkClient env = Inr base_url
      \<and> http (base_url @ py ''/projects.json?status=active'') w1 = (Inr r, w2)
      \<and> 400 \<le> status_code r \<and> status_code r < 600"
  then show "verify_name_in_teamwork env lib http name w =
        (Inr \<lparr> v_name = name, found_in_teamwork = False, previous_translations = None,
               previous_evaluations = None, v_error = Some (HTTPError (status_code r)),
               verification_status = py ''Error - could not verify'' \<rparr>, w2)"
    by (elim conjE) (rule verify_listing_error)
next
  assume "project_tasks lib http base_url query p w = (Inl e, w')"
  then show "search_projects lib http base_url query (JObj p # ps) w =
        search_projects lib http base_url query ps w'"
    by (rule search_projects_skips)
qed

theorem client_error_handling_witness:
  "status_service 503 (py ''https://cultureflipper.teamwork.com/projects.json?status=active'') 0
     = (Inr \<lparr> status_code = 503, json_body = Inl JSONDecodeError \<rparr>, 1)
   \<and> get_projects (status_service 503) (py ''https://cultureflipper.teamwork.com'') (py ''active'') 0
     = (Inl (HTTPError 503), 1)
   \<and> get_tasks_by_project ascii_lib (status_service 503)
       (py ''https://cultureflipper.teamwork.com'') (JStr (py ''7'')) 0
     = (Inl (HTTPError 503), 1)
   \<and> TeamworkClient example_environ = Inr (py ''https://cultureflipper.teamwork.com'')
   \<and> verification_body example_environ ascii_lib (status_service 503) [0xAE40, 0xC9C0, 0xC6D0] 1
     = (Inl (HTTPError 503), 2)
   \<and> verify_name_in_teamwork example_environ ascii_lib (status_service 503)
       [0xAE40, 0xC9C0, 0xC6D0] 0
     = (Inr \<lparr> v_name = [0xAE40, 0xC9C0, 0xC6D0], found_in_teamwork = False,
               previous_translations = None, previous_evaluations = None,
               v_error = Some (HTTPError 503),
               verification_status = py ''Error - could not verify'' \<rparr>, 2)
   \<and> project_tasks ascii_lib (status_service 503) (py ''https://cultureflipper.teamwork.com'')
       [0xAE40, 0xC9C0, 0xC6D0] [(py ''id'', JStr (py ''7''))] 0
     = (Inl (HTTPError 503), 1)
   \<and> search_projects ascii_lib (status_service 503) (py ''https://cultureflipper.teamwork.com'')
       [0xAE40, 0xC9C0, 0xC6D0] [JObj [(py ''id'', JStr (py ''7''))]] 0
     = (Inr [], 1)"
proof -
  let ?base = "py ''https://cultureflipper.teamwork.com''"
  let ?r = "\<lparr> status_code = 503, json_body = Inl JSONDecodeError \<rparr>"
  have u: "?base @ py ''/projects.json?status='' @ py ''active''
             = py ''https://cultureflipper.teamwork.com/projects.json?status=active''"
          "?base @ py ''/projects.json?status=active''
             = py ''https://cultureflipper.teamwork.com/projects.json?status=active''"
    by (simp_all add: py_def)
  have h: "status_service 503 url w = (Inr ?r, w + 1)" for url w
    by (simp add: status_service_def)
  have c: "TeamworkClient example_environ = Inr ?base"
    by (simp add: TeamworkClient_def example_environ_def py_def)
  have b: "verification_body example_environ ascii_lib (status_service 503)
             [0xAE40, 0xC9C0, 0xC6D0] 1 = (Inl (HTTPError 503), 2)"
    by (simp add: verification_body_def search_name_in_teamwork_def c search_tasks_def
        get_projects_def get_listing_def raise_for_status_def h)
  have p: "project_tasks ascii_lib (status_service 503) ?base [0xAE40, 0xC9C0, 0xC6D0]
             [(py ''id'', JStr (py ''7''))] 0 = (Inl (HTTPError 503), 1)"
    by (simp add: project_tasks_def get_tasks_by_project_def get_listing_def
        raise_for_status_def h)
  show ?thesis
    using client_error_handling
            [where http = "status_service 503" and base_url = ?base and status = "py ''active''"
               and w = 0 and w' = 1 and r = ?r and lib = ascii_lib
               and project_id = "JStr (py ''7'')" and env = example_environ
               and name = "[0xAE40, 0xC9C0, 0xC6D0]" and e = "HTTPError 503"
               and direct_check = "Inr ?r" and ?w1.0 = 1 and ?w2.0 = 2
               and query = "[0xAE40, 0xC9C0, 0xC6D0]" and p = "[(py ''id'', JStr (py ''7''))]"
               and ps = "[]"]
          h [of _ 0] h [of _ 1] u c b p
    by simp
qed

section \<open>Properties of the batch functions and the command-line tools\<close>

lemma evaluate_english_names_entries:
  "list_all2
     (\<lambda>name entry.
        case entry of
          Evaluated r \<Rightarrow> en_name r = name
        | Failed r \<Rightarrow> err_name r = name \<and> \<not> err_compliant r \<and> err_overall_score r = 0)
     names (fst (evaluate_english_names lib block chain names check_teamwork w))"
proof (induction names arbitrary: w)
  case Nil
  show ?case by simp
next
  case (Cons name names)
  obtain outcome w' where o: "evaluate_english_name lib block chain name check_teamwork w = (outcome, w')"
    by (cases "evaluate_english_name lib block chain name check_teamwork w")
  obtain results w'' where r: "evaluate_english_names lib block chain names check_teamwork w' = (results, w'')"
    by (cases "evaluate_english_names lib block chain names check_teamwork w'")
  have n: "outcome = Inr res \<Longrightarrow> en_name res = name" for res
    using o by (auto simp: evaluate_english_name_def parse_evaluation_def Let_def
        split: prod.splits sum.splits)
  show ?case
    using Cons.IH [of w'] o r n
    by (auto simp: error_entry_def split: sum.splits)
qed

lemma batch_evaluate_names_entries:
  "list_all2
     (\<lambda>name entry.
        case entry of
          Evaluated r \<Rightarrow> True
        | Failed r \<Rightarrow> err_name r = name \<and> \<not> err_compliant r \<and> err_overall_score r = 0)
     names
     (fst (batch_evaluate_names lib block extraction_chain text_chain names direction
             check_teamwork w))"
proof (induction names arbitrary: w)
  case Nil
  show ?case by simp
next
  case (Cons name names)
  obtain outcome w' where o:
    "evaluate_name lib block extraction_chain text_chain name direction check_teamwork w
       = (outcome, w')"
    by (cases "evaluate_name lib block extraction_chain text_chain name direction
                 check_teamwork w")
  obtain results w'' where r:
    "batch_evaluate_names lib block extraction_chain text_chain names direction check_teamwork w'
       = (results, w'')"
    by (cases "batch_evaluate_names lib block extraction_chain text_chain names direction
                 check_teamwork w'")
  show ?case
    using Cons.IH [of w'] o r
    by (auto simp: error_entry_def split: sum.splits)
qed

lemma batch_evaluate_names_length:
  "length (fst (batch_evaluate_names lib block extraction_chain text_chain names direction
                  check_teamwork w)) = length names"
  using batch_evaluate_names_entries [of names lib block extraction_chain text_chain direction
      check_teamwork w]
  by (simp add: list_all2_lengthD)

lemma evaluate_english_names_length:
  "length (fst (evaluate_english_names lib block chain names check_teamwork w)) = length names"
  using evaluate_english_names_entries [of names lib block chain check_teamwork w]
  by (simp add: list_all2_lengthD)

lemma filter_all_length: "(length (filter P xs) = length xs) = list_all P xs"
  by (induction xs) (auto simp: le_imp_less_Suc [OF length_filter_le] less_imp_neq)

lemma korean_name_cli_exit:
  assumes "\<not> arg_show_resources args"
    and "cli_names read_lines (arg_names args) (arg_file args) = Inr names"
  shows "fst (korean_name_cli_main lib block extraction_chain text_chain read_lines args w) =
           Exit (if list_all entry_compliant
                      (fst (batch_evaluate_names lib block extraction_chain text_chain names
                              (arg_direction args) True w))
                 then 0 else 1)"
proof -
  obtain results w' where r:
    "batch_evaluate_names lib block extraction_chain text_chain names (arg_direction args) True w
       = (results, w')"
    by (cases "batch_evaluate_names lib block extraction_chain text_chain names
                 (arg_direction args) True w")
  have "length results = length names"
    using batch_evaluate_names_length
            [of lib block extraction_chain text_chain names "arg_direction args" True w] r
    by simp
  then have "(compliant_count results = length names) = list_all entry_compliant results"
    using filter_all_length [of entry_compliant results] by (simp add: compliant_count_def)
  then show ?thesis
    using assms r by (simp add: korean_name_cli_main_def)
qed

text \<open>
  C3. A batch of N names, one of which raises a transport failure, is meant to give N
  entries, the failing one marked not compliant with the error recorded, in each of the
  three batch functions. \<^verbatim>\<open>evaluate_english_names\<close> and \<^verbatim>\<open>batch_evaluate_names\<close> do so
  (the two lemmas on entries above, and the second and third part below).
  \<^verbatim>\<open>evaluate_korean_names\<close> has no handler: on three names whose second makes the model
  endpoint raise ConnectionError, it raises after two calls and returns no list.
\<close>

theorem korean_batch_stops_at_first_failure:
  "evaluate_korean_names ascii_lib example_loads example_chain
     [[0xAE40, 0xC9C0, 0xC6D0], py ''Lee Min-ho'', [0xAE40, 0xC9C0, 0xC6D0]] True 0
     = (Inl ConnectionError, 2)
   \<and> map (\<lambda>entry. case entry of Evaluated r \<Rightarrow> None | Failed r \<Rightarrow> Some r)
       (fst (evaluate_english_names ascii_lib no_teamwork example_chain
               [[0xAE40, 0xC9C0, 0xC6D0], py ''Lee Min-ho'', [0xAE40, 0xC9C0, 0xC6D0]] True 0))
     = [None,
        Some \<lparr> err_name = py ''Lee Min-ho'', err_error = ConnectionError,
               err_compliant = False, err_overall_score = 0 \<rparr>,
        None]
   \<and> map (\<lambda>entry. case entry of Evaluated r \<Rightarrow> None | Failed r \<Rightarrow> Some r)
       (fst (batch_evaluate_names ascii_lib no_teamwork failing_extraction text_answer
               [[0xAE40, 0xC9C0, 0xC6D0], py ''Lee Min-ho'', [0xAE40, 0xC9C0, 0xC6D0]]
               (py ''KO-EN'') True 0))
     = [None,
        Some \<lparr> err_name = py ''Lee Min-ho'', err_error = ConnectionError,
               err_compliant = False, err_overall_score = 0 \<rparr>,
        None]"
proof -
  have n: "py ''Lee Min-ho'' \<noteq> [0xAE40, 0xC9C0, 0xC6D0]"
    by (simp add: py_def)
  have k: "evaluate_korean_names ascii_lib example_loads example_chain
     [[0xAE40, 0xC9C0, 0xC6D0], py ''Lee Min-ho'', [0xAE40, 0xC9C0, 0xC6D0]] True 0
     = (Inl ConnectionError, 2)"
    using n by (simp add: name_evaluator_bool example_chain_def)
  have e: "map (\<lambda>entry. case entry of Evaluated r \<Rightarrow> None | Failed r \<Rightarrow> Some r)
       (fst (evaluate_english_names ascii_lib no_teamwork example_chain
               [[0xAE40, 0xC9C0, 0xC6D0], py ''Lee Min-ho'', [0xAE40, 0xC9C0, 0xC6D0]] True 0))
     = [None,
        Some \<lparr> err_name = py ''Lee Min-ho'', err_error = ConnectionError,
               err_compliant = False, err_overall_score = 0 \<rparr>,
        None]"
    using n by (simp add: evaluate_english_name_def no_teamwork_def example_chain_def error_entry_def)
  have b: "map (\<lambda>entry. case entry of Evaluated r \<Rightarrow> None | Failed r \<Rightarrow> Some r)
       (fst (batch_evaluate_names ascii_lib no_teamwork failing_extraction text_answer
               [[0xAE40, 0xC9C0, 0xC6D0], py ''Lee Min-ho'', [0xAE40, 0xC9C0, 0xC6D0]]
               (py ''KO-EN'') True 0))
     = [None,
        Some \<lparr> err_name = py ''Lee Min-ho'', err_error = ConnectionError,
               err_compliant = False, err_overall_score = 0 \<rparr>,
        None]"
    using n by (simp add: evaluate_name_def no_teamwork_def failing_extraction_def text_answer_def
        error_entry_def)
  show ?thesis
    using k e b by simp
qed

text \<open>
  C9. The exit status is meant to be 0 exactly when every result is compliant.
  \<^verbatim>\<open>main\<close> of \<^verbatim>\<open>korean_name_cli.py\<close> ends with such a \<open>sys.exit\<close> (lemma
  \<open>korean_name_cli_exit\<close>, and the last part below). \<^verbatim>\<open>main\<close> of
  \<^verbatim>\<open>name_eval_system.py\<close> has none: for one name whose evaluation is not compliant it
  returns, and the status of the process is 0.
\<close>

theorem system_main_returns_on_non_compliant:
  "process_names ascii_lib example_loads no_teamwork refusing_chain refusing_chain
     [[0xAE40, 0xC9C0, 0xC6D0]] (Some (py ''KO-EN'')) False False 0
     = (Inr ([extract_evaluation ascii_lib example_loads [0xAE40, 0xC9C0, 0xC6D0] (JBool False)
               (py ''I cannot evaluate this name.'')], []), 1)
   \<and> ko_compliant (extract_evaluation ascii_lib example_loads [0xAE40, 0xC9C0, 0xC6D0]
        (JBool False) (py ''I cannot evaluate this name.'')) = JBool False
   \<and> name_eval_system_main ascii_lib example_loads no_teamwork refusing_chain refusing_chain
       no_files 0 example_args 0 = (Returned, 1)
   \<and> exit_status Returned = 0
   \<and> korean_name_cli_main ascii_lib no_teamwork failing_extraction text_answer no_files
       \<lparr> arg_show_resources = False, arg_names = Some [[0xAE40, 0xC9C0, 0xC6D0]],
         arg_file = None, arg_direction = py ''KO-EN'' \<rparr> 0 = (Exit 1, 2)"
proof -
  have p: "process_names ascii_lib example_loads no_teamwork refusing_chain refusing_chain
     [[0xAE40, 0xC9C0, 0xC6D0]] (Some (py ''KO-EN'')) False False 0
     = (Inr ([extract_evaluation ascii_lib example_loads [0xAE40, 0xC9C0, 0xC6D0] (JBool False)
               (py ''I cannot evaluate this name.'')], []), 1)"
    by (simp add: process_names_def name_evaluator_bool refusing_chain_def)
  have c: "ko_compliant (extract_evaluation ascii_lib example_loads [0xAE40, 0xC9C0, 0xC6D0]
        (JBool False) (py ''I cannot evaluate this name.'')) = JBool False"
    by (simp add: ko_defs example_defs str_defs ascii_defs)
  have s: "system_names no_files (sys_names example_args) (sys_file example_args)
             = Inr [[0xAE40, 0xC9C0, 0xC6D0]]"
    by (simp add: system_names_def example_args_def comma_names_def strip_def whitespace_def)
  have m: "name_eval_system_main ascii_lib example_loads no_teamwork refusing_chain refusing_chain
       no_files 0 example_args 0 = (Returned, 1)"
    by (simp add: name_eval_system_main_def s) (simp add: example_args_def p)
  have t: "contains (py ''compliant'')
             (str_lower ascii_lib (py ''The notation Kim Ji-won is acceptable.'')) = False"
    by (simp add: py_def ascii_lib_def ascii_lower_def)
  have k: "korean_name_cli_main ascii_lib no_teamwork failing_extraction text_answer no_files
       \<lparr> arg_show_resources = False, arg_names = Some [[0xAE40, 0xC9C0, 0xC6D0]],
         arg_file = None, arg_direction = py ''KO-EN'' \<rparr> 0 = (Exit 1, 2)"
    by (simp add: korean_name_cli_main_def cli_names_def evaluate_name_def no_teamwork_def
        failing_extraction_def text_answer_def compliant_count_def t)
  show ?thesis
    using p c m k by simp
qed

end
